theory Spec2Isabelle
  imports Complex_Main
begin

chapter \<open>The tool handlers\<close>

section \<open>JavaScript strings and arrays\<close>

text \<open>
  A JavaScript string is modelled by the bytes of its UTF-8 encoding, a \<^typ>\<open>string\<close>.
  Equality, concatenation and substring search on well-formed strings are the same on
  the bytes as on the code units, because a UTF-8 sequence can only occur in another at a
  character boundary.

  The handlers take their arguments from an untyped object. Here each required argument
  is a parameter of the type its schema declares, and each optional argument is an
  \<open>option\<close> whose \<open>None\<close> selects the default of the destructuring.
\<close>

text \<open>\<open>startsWith s t\<close>: the string \<open>s\<close> begins with \<open>t\<close>.\<close>

fun startsWith :: "string \<Rightarrow> string \<Rightarrow> bool" where
  "startsWith s [] = True"
| "startsWith [] (d # t) = False"
| "startsWith (c # s) (d # t) = (c = d \<and> startsWith s t)"

text \<open>
  \<open>str_includes s t\<close> is \<^verbatim>\<open>s.includes(t)\<close>: \<open>t\<close> occurs in \<open>s\<close> at some position.
  The empty string occurs in every string.
\<close>

fun str_includes :: "string \<Rightarrow> string \<Rightarrow> bool" where
  "str_includes [] t = (t = [])"
| "str_includes (c # s) t = (startsWith (c # s) t \<or> str_includes s t)"

text \<open>\<open>arr_includes xs x\<close> is \<^verbatim>\<open>xs.includes(x)\<close> on an array of strings.\<close>

definition arr_includes :: "string list \<Rightarrow> string \<Rightarrow> bool" where
  "arr_includes xs x \<longleftrightarrow> x \<in> set xs"

text \<open>\<open>join sep xs\<close> is \<^verbatim>\<open>xs.join(sep)\<close>.\<close>

fun join :: "string \<Rightarrow> string list \<Rightarrow> string" where
  "join sep [] = []"
| "join sep [x] = x"
| "join sep (x # y # ys) = x @ sep @ join sep (y # ys)"

text \<open>
  \<open>replace_first s pat rep\<close> is \<^verbatim>\<open>s.replace(pat, rep)\<close> for a string pattern: the first
  occurrence of \<open>pat\<close> is replaced, and \<open>s\<close> is returned as it is when there is none.
  (The replacement strings used here contain no \<^verbatim>\<open>$\<close> pattern.)
\<close>

fun replace_first :: "string \<Rightarrow> string \<Rightarrow> string \<Rightarrow> string" where
  "replace_first [] pat rep = (if pat = [] then rep else [])"
| "replace_first (c # s) pat rep =
     (if startsWith (c # s) pat then rep @ drop (length pat) (c # s)
      else c # replace_first s pat rep)"

section \<open>JavaScript numbers\<close>

text \<open>
  A number that a request can carry: a finite value, given exactly as a rational, or one
  of the two infinities that an overflowing literal is read as. Negative zero prints and
  indexes as zero and is not told apart.
\<close>

datatype jsnumber = Finite rat | PosInfinity | NegInfinity

text \<open>
  \<open>number_minus n d\<close> is \<^verbatim>\<open>n - d\<close> for a finite \<open>d\<close>. The difference is kept exact. The
  engine rounds it to a double, but for a double \<open>n\<close> the rounded \<open>n - 1\<close> is 0, 1 or 2
  exactly when the exact one is: next to 1, 2 and 3 the subtraction of 1 is exact.
\<close>

fun number_minus :: "jsnumber \<Rightarrow> rat \<Rightarrow> jsnumber" where
  "number_minus (Finite r) d = Finite (r - d)"
| "number_minus PosInfinity d = PosInfinity"
| "number_minus NegInfinity d = NegInfinity"

text \<open>
  \<open>array_get xs n\<close> is the indexed read \<^verbatim>\<open>xs[n]\<close>: it finds an element when \<open>n\<close> is a whole
  number from 0 to the length minus one, and is \<^verbatim>\<open>undefined\<close>, here \<open>None\<close>, for every other
  number.
\<close>

fun array_get :: "'a list \<Rightarrow> jsnumber \<Rightarrow> 'a option" where
  "array_get xs (Finite r) =
     (if r = of_int \<lfloor>r\<rfloor> \<and> 0 \<le> r \<and> r < of_nat (length xs) then Some (xs ! nat \<lfloor>r\<rfloor>)
      else None)"
| "array_get xs PosInfinity = None"
| "array_get xs NegInfinity = None"

section \<open>The built-in functions\<close>

text \<open>
  Three functions of the JavaScript engine are used by the handlers and are not part of
  the repository: \<^verbatim>\<open>String.prototype.toLowerCase\<close>, \<^verbatim>\<open>String.prototype.toUpperCase\<close> and the
  conversion of a number to its text (in a template literal and in \<^verbatim>\<open>JSON.stringify\<close>).
  Every handler that calls one of them takes the three as a parameter \<open>js\<close>, and every
  property below holds for whatever functions the engine provides.
\<close>

record js_builtins =
  toLowerCase :: "string \<Rightarrow> string"
  toUpperCase :: "string \<Rightarrow> string"
  Number_toString :: "jsnumber \<Rightarrow> string"

subsection \<open>A reference instance for evaluation\<close>

text \<open>
  To evaluate the handlers on concrete inputs, \<open>ascii_builtins\<close> gives the three functions
  on the inputs where they are elementary. \<open>ascii_toLowerCase\<close> and \<open>ascii_toUpperCase\<close>
  change the 26 ASCII letters and nothing else: they are the engine's functions on every
  ASCII string. \<open>decimal_toString\<close> prints the decimal expansion: it is the engine's text
  for zero and for every number with at most 15 significant decimal digits and a magnitude
  from 0.000001 up to, but excluding, 10 to the power 21, and for the infinities. The
  instance is used on such inputs only.
\<close>

definition upper_letters :: string where
  "upper_letters = ''ABCDEFGHIJKLMNOPQRSTUVWXYZ''"

definition lower_letters :: string where
  "lower_letters = ''abcdefghijklmnopqrstuvwxyz''"

definition ascii_lower_char :: "char \<Rightarrow> char" where
  "ascii_lower_char c =
     (case map_of (zip upper_letters lower_letters) c of None \<Rightarrow> c | Some d \<Rightarrow> d)"

definition ascii_upper_char :: "char \<Rightarrow> char" where
  "ascii_upper_char c =
     (case map_of (zip lower_letters upper_letters) c of None \<Rightarrow> c | Some d \<Rightarrow> d)"

definition ascii_toLowerCase :: "string \<Rightarrow> string" where
  "ascii_toLowerCase s = map ascii_lower_char s"

definition ascii_toUpperCase :: "string \<Rightarrow> string" where
  "ascii_toUpperCase s = map ascii_upper_char s"

text \<open>The decimal digits of a whole number that is not negative.\<close>

function digits :: "int \<Rightarrow> string" where
  "digits i = (if i < 10 then [''0123456789'' ! nat i]
               else digits (i div 10) @ [''0123456789'' ! nat (i mod 10)])"
  by pat_completeness auto
termination
  by (relation "measure nat") auto

text \<open>The digits after the point of a value below 1, at most \<open>k\<close> of them.\<close>

fun fraction_digits :: "nat \<Rightarrow> rat \<Rightarrow> string" where
  "fraction_digits 0 r = []"
| "fraction_digits (Suc k) r =
     (if r = 0 then []
      else (''0123456789'' ! nat \<lfloor>10 * r\<rfloor>)
           # fraction_digits k (10 * r - of_int \<lfloor>10 * r\<rfloor>))"

definition unsigned_decimal :: "rat \<Rightarrow> string" where
  "unsigned_decimal r =
     digits \<lfloor>r\<rfloor>
     @ (if r = of_int \<lfloor>r\<rfloor> then [] else ''.'' @ fraction_digits 20 (r - of_int \<lfloor>r\<rfloor>))"

fun decimal_toString :: "jsnumber \<Rightarrow> string" where
  "decimal_toString (Finite r) =
     (if r < 0 then ''-'' @ unsigned_decimal (- r) else unsigned_decimal r)"
| "decimal_toString PosInfinity = ''Infinity''"
| "decimal_toString NegInfinity = ''-Infinity''"

definition ascii_builtins :: js_builtins where
  "ascii_builtins =
     \<lparr> toLowerCase = ascii_toLowerCase, toUpperCase = ascii_toUpperCase,
       Number_toString = decimal_toString \<rparr>"

section \<open>Fixed pieces of text\<close>

definition nl :: string where "nl = [CHR 0x0A]"
definition dq :: string where "dq = [CHR 0x22]"
definition sq :: string where "sq = [CHR 0x27]"
definition bs :: string where "bs = [CHR 0x5C]"

text \<open>U+2705, U+274C, U+26A0 U+FE0F and U+2192 in UTF-8.\<close>

definition check_mark :: string where "check_mark = [CHR 0xE2, CHR 0x9C, CHR 0x85]"
definition cross_mark :: string where "cross_mark = [CHR 0xE2, CHR 0x9D, CHR 0x8C]"
definition warning_sign :: string where
  "warning_sign = [CHR 0xE2, CHR 0x9A, CHR 0xA0, CHR 0xEF, CHR 0xB8, CHR 0x8F]"
definition right_arrow :: string where "right_arrow = [CHR 0xE2, CHR 0x86, CHR 0x92]"

text \<open>The bullet list \<^verbatim>\<open>xs.map(x => `- ${x}`).join('\n')\<close> of the report texts.\<close>

definition bullets :: "string list \<Rightarrow> string" where
  "bullets xs = join nl (map (\<lambda>x. ''- '' @ x) xs)"

section \<open>JSON values and \<open>JSON.stringify\<close>\<close>

text \<open>
  A value that arrives in a request or is built by a generator. An object is the list of
  its own properties in the order the engine enumerates them.
\<close>

datatype json =
    JNull
  | JBool bool
  | JNum jsnumber
  | JStr string
  | JArr "json list"
  | JObj "(string \<times> json) list"

text \<open>
  \<open>set_property ps k v\<close> is the assignment \<^verbatim>\<open>obj[k] = v\<close>: an existing property keeps its
  place, a new one goes last.
\<close>

fun set_property :: "(string \<times> 'v) list \<Rightarrow> string \<Rightarrow> 'v \<Rightarrow> (string \<times> 'v) list" where
  "set_property [] k v = [(k, v)]"
| "set_property (p # ps) k v = (if fst p = k then (k, v) # ps else p # set_property ps k v)"

text \<open>
  \<open>get_property ps k\<close> is the read \<^verbatim>\<open>obj[k]\<close> of an own property of an object literal;
  \<open>None\<close> is \<^verbatim>\<open>undefined\<close>. The read is exact for every name that is not a member of
  \<^verbatim>\<open>Object.prototype\<close>; inherited members are not modelled.
\<close>

definition get_property :: "(string \<times> 'v) list \<Rightarrow> string \<Rightarrow> 'v option" where
  "get_property ps k = map_of ps k"

definition Object_values :: "(string \<times> 'v) list \<Rightarrow> 'v list" where
  "Object_values ps = map snd ps"

definition hex_digit :: "nat \<Rightarrow> char" where
  "hex_digit n = ''0123456789abcdef'' ! n"

text \<open>
  The escape of one character inside a JSON string. The bytes of a non-ASCII character
  are copied as they are.
\<close>

definition quote_char :: "char \<Rightarrow> string" where
  "quote_char c =
     (if c = CHR 0x22 then bs @ dq
      else if c = CHR 0x5C then bs @ bs
      else if c = CHR 0x08 then bs @ ''b''
      else if c = CHR 0x09 then bs @ ''t''
      else if c = CHR 0x0A then bs @ ''n''
      else if c = CHR 0x0C then bs @ ''f''
      else if c = CHR 0x0D then bs @ ''r''
      else if (of_char c :: nat) < 32
        then bs @ ''u00'' @ [hex_digit ((of_char c :: nat) div 16),
                              hex_digit ((of_char c :: nat) mod 16)]
      else [c])"

definition quote :: "string \<Rightarrow> string" where
  "quote s = dq @ concat (map quote_char s) @ dq"

text \<open>A finite number is serialised as its text, an infinity as \<^verbatim>\<open>null\<close>.\<close>

fun serialize_number :: "js_builtins \<Rightarrow> jsnumber \<Rightarrow> string" where
  "serialize_number js (Finite r) = Number_toString js (Finite r)"
| "serialize_number js PosInfinity = ''null''"
| "serialize_number js NegInfinity = ''null''"

text \<open>
  The serialisation of \<^verbatim>\<open>JSON.stringify(value, null, space)\<close>: \<open>gap\<close> is the indentation unit
  (empty for the compact form) and \<open>indent\<close> the indentation reached so far.
\<close>

fun serialize :: "js_builtins \<Rightarrow> string \<Rightarrow> string \<Rightarrow> json \<Rightarrow> string" where
  "serialize js gap indent JNull = ''null''"
| "serialize js gap indent (JBool b) = (if b then ''true'' else ''false'')"
| "serialize js gap indent (JNum n) = serialize_number js n"
| "serialize js gap indent (JStr s) = quote s"
| "serialize js gap indent (JArr vs) =
     (let partial = map (serialize js gap (indent @ gap)) vs in
      if partial = [] then ''[]''
      else if gap = [] then ''['' @ join '','' partial @ '']''
      else ''['' @ nl @ indent @ gap @ join ('','' @ nl @ indent @ gap) partial
           @ nl @ indent @ '']'')"
| "serialize js gap indent (JObj ps) =
     (let partial = map (\<lambda>(k, v). quote k @ '':'' @ (if gap = [] then [] else '' '')
                                  @ serialize js gap (indent @ gap) v) ps in
      if partial = [] then ''{}''
      else if gap = [] then ''{'' @ join '','' partial @ ''}''
      else ''{'' @ nl @ indent @ gap @ join ('','' @ nl @ indent @ gap) partial
           @ nl @ indent @ ''}'')"

definition JSON_stringify :: "js_builtins \<Rightarrow> json \<Rightarrow> string" where
  "JSON_stringify js v = serialize js [] [] v"

text \<open>\<^verbatim>\<open>JSON.stringify(v, null, 2)\<close>: the indentation unit is two spaces.\<close>

definition JSON_stringify_2 :: "js_builtins \<Rightarrow> json \<Rightarrow> string" where
  "JSON_stringify_2 js v = serialize js ''  '' [] v"

section \<open>The response envelope\<close>

text \<open>
  Every handler returns \<^verbatim>\<open>{ content: [ { type: 'text', text } ] }\<close>: one text block.
  A handler that reads a property of \<^verbatim>\<open>undefined\<close> throws instead.
\<close>

datatype tool_response = TextContent string

datatype js_error = TypeError string

text \<open>The two arrays \<open>issues\<close> and \<open>recommendations\<close> that a reviewer fills.\<close>

type_synonym findings = "string list \<times> string list"

section \<open>The static tables\<close>

record curriculum_level =
  cl_phonemes :: "string list"
  cl_words :: "string list option"
  cl_focus :: string
  cl_masteryRequirement :: nat

definition level1 :: curriculum_level where
  "level1 = \<lparr> cl_phonemes = [''a'', ''b'', ''c'', ''d'', ''e'', ''f'', ''g'', ''h'', ''i''],
              cl_words = None,
              cl_focus = ''Single letter sounds'',
              cl_masteryRequirement = 90 \<rparr>"

definition level2 :: curriculum_level where
  "level2 = \<lparr> cl_phonemes = [''j'', ''k'', ''l'', ''m'', ''n'', ''o'', ''p'', ''q'', ''r''],
              cl_words = Some [''cat'', ''dog'', ''run'', ''big'', ''hat''],
              cl_focus = ''CVC words'',
              cl_masteryRequirement = 85 \<rparr>"

definition level3 :: curriculum_level where
  "level3 = \<lparr> cl_phonemes = [''s'', ''t'', ''u'', ''v'', ''w'', ''x'', ''y'', ''z''],
              cl_words = Some [''bath'', ''ship'', ''thin''],
              cl_focus = ''Consonant digraphs'',
              cl_masteryRequirement = 85 \<rparr>"

definition OG_CURRICULUM :: "(string \<times> curriculum_level) list" where
  "OG_CURRICULUM = [(''level1'', level1), (''level2'', level2), (''level3'', level3)]"

record trauma_informed_principles =
  tip_avoid :: "string list"
  tip_encourage :: "string list"
  tip_principles :: "string list"

definition TRAUMA_INFORMED_PRINCIPLES :: trauma_informed_principles where
  "TRAUMA_INFORMED_PRINCIPLES =
     \<lparr> tip_avoid =
         [''wrong'', ''incorrect'', ''mistake'', ''error'', ''failed'', ''try again'',
          ''you should'', ''you need to'', ''that's not right'', ''no''],
       tip_encourage =
         [''great try'', ''let's practice'', ''you're learning'', ''nice work'',
          ''want to try together'', ''your brain is growing'', ''every attempt helps''],
       tip_principles =
         [''No failure states'',
          ''Child has control'',
          ''Unconditional positive regard'',
          ''Multiple pathways to success'',
          ''Celebrate effort over accuracy''] \<rparr>"

section \<open>The declared input domains\<close>

text \<open>
  The \<^verbatim>\<open>enum\<close> lists of the input schemas that the tool catalogue declares. The handlers
  receive their arguments untyped and do not check them against these lists.
\<close>

definition componentType_enum :: "string list" where
  "componentType_enum = [''button'', ''text'', ''input'', ''card'']"

definition intent_enum :: "string list" where
  "intent_enum = [''primary'', ''secondary'', ''comfort'', ''celebration'']"

definition modalities_enum :: "string list" where
  "modalities_enum = [''visual'', ''auditory'', ''kinesthetic'', ''tactile'']"

definition triggerType_enum :: "string list" where
  "triggerType_enum = [''behavioral'', ''physiological'', ''performance'']"

definition severity_enum :: "string list" where
  "severity_enum = [''mild'', ''moderate'', ''high'']"

definition theme_enum :: "string list" where
  "theme_enum = [''dragons'', ''space'', ''magic'', ''animals'', ''adventure'', ''mystery'']"

definition inputMethods_enum :: "string list" where
  "inputMethods_enum = [''touch'', ''voice'', ''camera'', ''microphone'', ''bluetooth'']"

definition stressLevel_enum :: "string list" where
  "stressLevel_enum = [''low'', ''medium'', ''high'']"

section \<open>generate_dyslexia_ui\<close>

record color_scheme =
  cs_bg :: string
  cs_border :: string
  cs_text :: string

definition getColorScheme :: "string \<Rightarrow> color_scheme" where
  "getColorScheme intent =
     (if intent = ''comfort''
        then \<lparr> cs_bg = ''bg-pink-100'', cs_border = ''border-pink-200'', cs_text = ''text-pink-900'' \<rparr>
      else if intent = ''celebration''
        then \<lparr> cs_bg = ''bg-blue-100'', cs_border = ''border-blue-200'', cs_text = ''text-blue-900'' \<rparr>
      else if intent = ''secondary''
        then \<lparr> cs_bg = ''bg-gray-100'', cs_border = ''border-gray-200'', cs_text = ''text-gray-900'' \<rparr>
      else \<lparr> cs_bg = ''bg-green-100'', cs_border = ''border-green-200'', cs_text = ''text-green-900'' \<rparr>)"

definition button_component :: "color_scheme \<Rightarrow> string \<Rightarrow> string" where
  "button_component colors content =
     nl @ ''<button '' @ nl
     @ ''  className=\"'' @ nl
     @ ''    font-['OpenDyslexic,Verdana,Arial,sans-serif'] '' @ nl
     @ ''    text-xl px-8 py-4 rounded-lg'' @ nl
     @ ''    '' @ cs_bg colors @ '' hover:'' @ replace_first (cs_bg colors) ''100'' ''200'' @ nl
     @ ''    '' @ cs_border colors @ '' border-2'' @ nl
     @ ''    '' @ cs_text colors @ nl
     @ ''    transition-colors duration-200'' @ nl
     @ ''    focus:outline-none focus:ring-4 focus:ring-opacity-50'' @ nl
     @ ''    min-h-[60px] min-w-[120px]'' @ nl
     @ ''    tracking-wide'' @ nl
     @ ''  \"'' @ nl
     @ ''  aria-label=\"'' @ content @ ''\"'' @ nl
     @ ''>'' @ nl
     @ ''  '' @ content @ nl
     @ ''</button>''"

definition text_component :: "color_scheme \<Rightarrow> string \<Rightarrow> string" where
  "text_component colors content =
     nl @ ''<p '' @ nl
     @ ''  className=\"'' @ nl
     @ ''    font-['OpenDyslexic,Verdana,Arial,sans-serif']'' @ nl
     @ ''    text-lg leading-relaxed tracking-wide'' @ nl
     @ ''    '' @ cs_text colors @ nl
     @ ''    max-w-prose'' @ nl
     @ ''  \"'' @ nl
     @ ''>'' @ nl
     @ ''  '' @ content @ nl
     @ ''</p>''"

definition input_component :: "color_scheme \<Rightarrow> string \<Rightarrow> string" where
  "input_component colors content =
     nl @ ''<input'' @ nl
     @ ''  className=\"'' @ nl
     @ ''    font-['OpenDyslexic,Verdana,Arial,sans-serif']'' @ nl
     @ ''    text-lg px-4 py-3 rounded-lg'' @ nl
     @ ''    border-2 '' @ cs_border colors @ nl
     @ ''    focus:border-blue-300 focus:ring-2 focus:ring-blue-200'' @ nl
     @ ''    bg-cream-50 min-h-[50px]'' @ nl
     @ ''    tracking-wide'' @ nl
     @ ''  \"'' @ nl
     @ ''  placeholder=\"'' @ content @ ''\"'' @ nl
     @ ''  aria-label=\"'' @ content @ ''\"'' @ nl
     @ ''/>''"

definition card_component :: "color_scheme \<Rightarrow> string \<Rightarrow> string" where
  "card_component colors content =
     nl @ ''<div '' @ nl
     @ ''  className=\"'' @ nl
     @ ''    '' @ cs_bg colors @ '' '' @ cs_border colors @ '' border-2 rounded-lg'' @ nl
     @ ''    p-6 shadow-sm'' @ nl
     @ ''    font-['OpenDyslexic,Verdana,Arial,sans-serif']'' @ nl
     @ ''  \"'' @ nl
     @ ''>'' @ nl
     @ ''  <div className=\"text-lg '' @ cs_text colors @ '' leading-relaxed tracking-wide\">'' @ nl
     @ ''    '' @ content @ nl
     @ ''  </div>'' @ nl
     @ ''</div>''"

text \<open>
  The \<^verbatim>\<open>switch\<close> on \<open>componentType\<close> has four cases and no default: any other value leaves
  \<open>component\<close> at its initial value, the empty string.
\<close>

definition select_component :: "string \<Rightarrow> color_scheme \<Rightarrow> string \<Rightarrow> string" where
  "select_component componentType colors content =
     (if componentType = ''button'' then button_component colors content
      else if componentType = ''text'' then text_component colors content
      else if componentType = ''input'' then input_component colors content
      else if componentType = ''card'' then card_component colors content
      else '''')"

definition dyslexia_ui_text :: "string \<Rightarrow> string \<Rightarrow> string" where
  "dyslexia_ui_text componentType component =
     ''Generated dyslexia-friendly '' @ componentType @ '' component:'' @ nl @ nl
     @ component
     @ nl @ nl @ ''Features:'' @ nl
     @ ''- OpenDyslexic font with fallbacks'' @ nl
     @ ''- High contrast colors'' @ nl
     @ ''- Large touch targets (min 44px)'' @ nl
     @ ''- Generous spacing and padding'' @ nl
     @ ''- Proper ARIA labels'' @ nl
     @ ''- Focus indicators''"

text \<open>The optional \<open>intent\<close> defaults to \<open>primary\<close>.\<close>

definition generateDyslexiaUI :: "string \<Rightarrow> string \<Rightarrow> string option \<Rightarrow> tool_response" where
  "generateDyslexiaUI componentType content intent_arg =
     (let intent = (case intent_arg of None \<Rightarrow> ''primary'' | Some i \<Rightarrow> i);
          colors = getColorScheme intent;
          component = select_component componentType colors content
      in TextContent (dyslexia_ui_text componentType component))"

section \<open>review_trauma_content\<close>

definition triggering_word_issue :: "string \<Rightarrow> string" where
  "triggering_word_issue word = ''Contains potentially triggering word: \"'' @ word @ ''\"''"

definition pressure_word_issue :: "string \<Rightarrow> string" where
  "pressure_word_issue word = ''May create pressure with word: \"'' @ word @ ''\"''"

definition pressureWords :: "string list" where
  "pressureWords = [''must'', ''should'', ''have to'', ''need to'', ''required'']"

text \<open>The two \<^verbatim>\<open>forEach\<close> loops push onto \<open>issues\<close>, one phrase after the other.\<close>

definition scan_avoid :: "js_builtins \<Rightarrow> string \<Rightarrow> string list \<Rightarrow> string list" where
  "scan_avoid js content issues =
     foldl (\<lambda>issues word.
              if str_includes (toLowerCase js content) (toLowerCase js word)
              then issues @ [triggering_word_issue word] else issues)
       issues (tip_avoid TRAUMA_INFORMED_PRINCIPLES)"

definition scan_pressure :: "js_builtins \<Rightarrow> string \<Rightarrow> string list \<Rightarrow> string list" where
  "scan_pressure js content issues =
     foldl (\<lambda>issues word.
              if str_includes (toLowerCase js content) word
              then issues @ [pressure_word_issue word] else issues)
       issues pressureWords"

record trauma_review =
  tr_issues :: "string list"
  tr_alternatives :: "string list"
  tr_isTraumaInformed :: bool

definition trauma_content_review :: "js_builtins \<Rightarrow> string \<Rightarrow> trauma_review" where
  "trauma_content_review js content =
     (let issues = [];
          alternatives = [];
          issues = scan_avoid js content issues;
          issues = scan_pressure js content issues;
          alternatives =
            (if length issues > 0
             then alternatives @
               [''Great try! Let's practice that together.'',
                ''You're learning! Every attempt makes your brain stronger.'',
                ''Want to try another way?'',
                ''Nice work exploring that sound!'']
             else alternatives);
          isTraumaInformed = (length issues = 0)
      in \<lparr> tr_issues = issues, tr_alternatives = alternatives,
           tr_isTraumaInformed = isTraumaInformed \<rparr>)"

definition trauma_review_text :: "string \<Rightarrow> string \<Rightarrow> trauma_review \<Rightarrow> string" where
  "trauma_review_text content context r =
     ''TRAUMA-INFORMED CONTENT REVIEW'' @ nl @ nl
     @ ''Content: \"'' @ content @ ''\"'' @ nl
     @ ''Context: '' @ context @ nl @ nl
     @ (if tr_isTraumaInformed r then check_mark @ '' TRAUMA-INFORMED COMPLIANT''
        else cross_mark @ '' ISSUES DETECTED'')
     @ nl @ nl
     @ (if length (tr_issues r) > 0
        then ''Issues:'' @ nl @ bullets (tr_issues r) @ nl @ nl
             @ ''Positive Alternatives:'' @ nl
             @ join nl (map (\<lambda>a. ''- \"'' @ a @ ''\"'') (tr_alternatives r))
        else ''No trauma-informed issues detected. Content supports psychological safety.'')
     @ nl @ nl
     @ ''Principles Applied:'' @ nl
     @ bullets (tip_principles TRAUMA_INFORMED_PRINCIPLES)"

text \<open>The optional \<open>context\<close> defaults to the empty string.\<close>

definition reviewTraumaContent ::
  "js_builtins \<Rightarrow> string \<Rightarrow> string option \<Rightarrow> tool_response" where
  "reviewTraumaContent js content context_arg =
     (let context = (case context_arg of None \<Rightarrow> '''' | Some c \<Rightarrow> c)
      in TextContent (trauma_review_text content context (trauma_content_review js content)))"

section \<open>validate_og_activity\<close>

record og_validation =
  og_isSequential :: bool
  og_isMultisensory :: bool
  og_hasPhonemesFocus :: bool
  og_meetsLevel :: bool
  og_issues :: "string list"
  og_recommendations :: "string list"

definition og_modalities :: "string list" where
  "og_modalities = [''visual'', ''auditory'', ''kinesthetic'', ''tactile'']"

text \<open>
  The checks that follow the level lookup. The guard \<^verbatim>\<open>if (levelData.phonemes)\<close> tests an
  array, which is truthy, so the phoneme check always runs.
\<close>

definition og_validate ::
  "js_builtins \<Rightarrow> curriculum_level \<Rightarrow> json \<Rightarrow> jsnumber \<Rightarrow> og_validation" where
  "og_validate js levelData activity targetLevel =
     (let validation = \<lparr> og_isSequential = True, og_isMultisensory = False,
                          og_hasPhonemesFocus = False, og_meetsLevel = False,
                          og_issues = [], og_recommendations = [] \<rparr>;
          activityString = toLowerCase js (JSON_stringify js activity);
          modalityCount = length (filter (\<lambda>m. str_includes activityString m) og_modalities);
          validation = validation \<lparr> og_isMultisensory := (modalityCount \<ge> 2) \<rparr>;
          validation =
            (if \<not> og_isMultisensory validation
             then validation
               \<lparr> og_issues := og_issues validation
                    @ [''Activity should include multiple sensory modalities''],
                 og_recommendations := og_recommendations validation
                    @ [''Add visual, auditory, and kinesthetic elements''] \<rparr>
             else validation);
          validation = validation
            \<lparr> og_hasPhonemesFocus :=
                list_ex (\<lambda>p. str_includes activityString (toLowerCase js p))
                  (cl_phonemes levelData) \<rparr>;
          validation =
            (if \<not> og_hasPhonemesFocus validation
             then validation
               \<lparr> og_issues := og_issues validation
                    @ [''Activity should focus on level '' @ Number_toString js targetLevel
                       @ '' phonemes: '' @ join '', '' (cl_phonemes levelData)] \<rparr>
             else validation);
          validation = validation
            \<lparr> og_meetsLevel := (og_isMultisensory validation \<and> og_hasPhonemesFocus validation) \<rparr>
      in validation)"

definition mark :: "bool \<Rightarrow> string" where
  "mark b = (if b then check_mark else cross_mark)"

definition og_validation_text ::
  "js_builtins \<Rightarrow> jsnumber \<Rightarrow> curriculum_level \<Rightarrow> og_validation \<Rightarrow> string" where
  "og_validation_text js targetLevel levelData validation =
     ''ORTON-GILLINGHAM ACTIVITY VALIDATION'' @ nl @ nl
     @ ''Target Level: '' @ Number_toString js targetLevel @ '' - '' @ cl_focus levelData @ nl @ nl
     @ (if og_meetsLevel validation then check_mark @ '' OG COMPLIANT''
        else cross_mark @ '' NEEDS IMPROVEMENT'')
     @ nl @ nl
     @ ''Validation Results:'' @ nl
     @ ''- Sequential: '' @ mark (og_isSequential validation) @ nl
     @ ''- Multisensory: '' @ mark (og_isMultisensory validation) @ nl
     @ ''- Phoneme Focus: '' @ mark (og_hasPhonemesFocus validation) @ nl @ nl
     @ (if length (og_issues validation) > 0
        then ''Issues:'' @ nl @ bullets (og_issues validation) @ nl @ nl
             @ ''Recommendations:'' @ nl @ bullets (og_recommendations validation)
        else ''Activity meets OG standards!'')"

definition invalid_level_text :: "js_builtins \<Rightarrow> jsnumber \<Rightarrow> string" where
  "invalid_level_text js targetLevel =
     cross_mark @ '' Invalid OG level: '' @ Number_toString js targetLevel @ ''. Must be 1-3.''"

text \<open>
  The level is read from the array of the curriculum's values at index \<open>targetLevel - 1\<close>;
  a missing element ends the call with the error text.
\<close>

definition levelData_of :: "jsnumber \<Rightarrow> curriculum_level option" where
  "levelData_of targetLevel =
     array_get (Object_values OG_CURRICULUM) (number_minus targetLevel 1)"

definition validateOGActivity :: "js_builtins \<Rightarrow> json \<Rightarrow> jsnumber \<Rightarrow> tool_response" where
  "validateOGActivity js activity targetLevel =
     (case levelData_of targetLevel of
        None \<Rightarrow> TextContent (invalid_level_text js targetLevel)
      | Some levelData \<Rightarrow>
          TextContent (og_validation_text js targetLevel levelData
                         (og_validate js levelData activity targetLevel)))"

section \<open>generate_phoneme_activity\<close>

definition visual_component :: "js_builtins \<Rightarrow> string \<Rightarrow> json" where
  "visual_component js phoneme = JObj
     [(''letterDisplay'', JStr (''Large, clear display of letter \"'' @ toUpperCase js phoneme @ ''\"'')),
      (''visualization'', JStr ''Child sees the letter in high contrast''),
      (''animation'', JStr ''Letter appears with gentle fade-in effect'')]"

definition auditory_component :: "string \<Rightarrow> json" where
  "auditory_component phoneme = JObj
     [(''phonemeSound'', JStr (''Clear pronunciation of /'' @ phoneme @ ''/ sound'')),
      (''repetition'', JStr ''Sound plays automatically when letter appears''),
      (''childRepeat'', JStr ''Child encouraged to repeat the sound aloud'')]"

definition kinesthetic_component :: json where
  "kinesthetic_component = JObj
     [(''letterTracing'', JStr ''Child traces letter shape with finger on screen''),
      (''airWriting'', JStr ''Child \"writes\" letter in the air''),
      (''bodyMovement'', JStr ''Associate letter with body movement or gesture'')]"

definition tactile_component :: json where
  "tactile_component = JObj
     [(''textureAssociation'', JStr ''Connect letter with tactile experience''),
      (''hapticFeedback'', JStr ''Device vibration when letter is traced correctly''),
      (''physicalProps'', JStr ''Optional: textured letter cards for real-world practice'')]"

definition masteryIndicators :: "string list" where
  "masteryIndicators =
     [''Automatic recognition (< 2 seconds)'',
      ''Correct sound production'',
      ''Proper letter formation'']"

definition practiceStructure :: string where
  "practiceStructure =
     ''Present '' @ right_arrow @ '' Model '' @ right_arrow @ '' Practice '' @ right_arrow
     @ '' Assess '' @ right_arrow @ '' Celebrate''"

definition assessment_component :: json where
  "assessment_component = JObj
     [(''masteryIndicators'', JArr (map JStr masteryIndicators)),
      (''practiceStructure'', JStr practiceStructure)]"

text \<open>
  \<open>components\<close> starts as the empty object; each modality present in \<open>modalities\<close> assigns
  its property, and the assessment is assigned last, always.
\<close>

definition phoneme_components ::
  "js_builtins \<Rightarrow> string \<Rightarrow> string list \<Rightarrow> (string \<times> json) list" where
  "phoneme_components js phoneme modalities =
     (let components = [];
          components = (if arr_includes modalities ''visual''
                        then set_property components ''visual'' (visual_component js phoneme)
                        else components);
          components = (if arr_includes modalities ''auditory''
                        then set_property components ''auditory'' (auditory_component phoneme)
                        else components);
          components = (if arr_includes modalities ''kinesthetic''
                        then set_property components ''kinesthetic'' kinesthetic_component
                        else components);
          components = (if arr_includes modalities ''tactile''
                        then set_property components ''tactile'' tactile_component
                        else components);
          components = set_property components ''assessment'' assessment_component
      in components)"

definition phoneme_activity :: "js_builtins \<Rightarrow> string \<Rightarrow> string list \<Rightarrow> json" where
  "phoneme_activity js phoneme modalities = JObj
     [(''phoneme'', JStr phoneme),
      (''type'', JStr ''multisensory_practice''),
      (''components'', JObj (phoneme_components js phoneme modalities))]"

definition phoneme_activity_text ::
  "js_builtins \<Rightarrow> string \<Rightarrow> string list \<Rightarrow> json \<Rightarrow> string" where
  "phoneme_activity_text js phoneme modalities activity =
     ''MULTISENSORY PHONEME ACTIVITY'' @ nl @ nl
     @ ''Target Phoneme: /'' @ phoneme @ ''/'' @ nl
     @ ''Modalities: '' @ join '', '' modalities @ nl @ nl
     @ ''Activity Structure:'' @ nl
     @ JSON_stringify_2 js activity @ nl @ nl
     @ ''OG Compliance:'' @ nl
     @ ''- Follows systematic phonics progression'' @ nl
     @ ''- Includes explicit instruction'' @ nl
     @ ''- Provides multisensory reinforcement'' @ nl
     @ ''- Builds to automatic recognition'' @ nl @ nl
     @ ''Implementation Notes:'' @ nl
     @ ''- Always celebrate attempts, not just accuracy'' @ nl
     @ ''- Allow multiple practice opportunities'' @ nl
     @ ''- Monitor for stress and adjust accordingly'' @ nl
     @ ''- Progress only after mastery demonstrated''"

definition generatePhonemeActivity ::
  "js_builtins \<Rightarrow> string \<Rightarrow> string list \<Rightarrow> tool_response" where
  "generatePhonemeActivity js phoneme modalities =
     TextContent (phoneme_activity_text js phoneme modalities
                    (phoneme_activity js phoneme modalities))"

section \<open>review_code_safety\<close>

text \<open>
  The handler keeps two arrays, \<open>issues\<close> and \<open>recommendations\<close>, and pushes onto them
  in four successive checks. The state after each check is the pair of the two arrays,
  a value of type \<open>findings\<close>.
  All searches are on the raw \<open>code\<close> string.
\<close>

definition check_failure_states :: "string \<Rightarrow> findings \<Rightarrow> findings" where
  "check_failure_states code st =
     (if str_includes code ''fail'' \<or> str_includes code ''error'' \<or> str_includes code ''wrong''
      then (fst st @ [''Code may contain failure states or negative language''],
            snd st @ [''Implement positive feedback loops instead of failure states''])
      else st)"

definition check_stress_patterns :: "string \<Rightarrow> findings \<Rightarrow> findings" where
  "check_stress_patterns code st =
     (if str_includes code ''timeout'' \<or> str_includes code ''time limit''
      then (fst st @ [''Time pressure detected - may cause stress''],
            snd st @ [''Remove time limits or make them optional/invisible''])
      else st)"

definition check_accessibility :: "string \<Rightarrow> findings \<Rightarrow> findings" where
  "check_accessibility code st =
     (if str_includes code ''onClick'' \<and> \<not> str_includes code ''aria-label''
      then (fst st @ [''Interactive elements may lack accessibility labels''],
            snd st @ [''Add aria-label attributes to all interactive elements''])
      else st)"

definition hasPositiveReinforcement :: "string \<Rightarrow> bool" where
  "hasPositiveReinforcement code =
     (str_includes code ''celebrate'' \<or> str_includes code ''great'' \<or> str_includes code ''nice work'')"

definition check_positive_reinforcement :: "string \<Rightarrow> findings \<Rightarrow> findings" where
  "check_positive_reinforcement code st =
     (if \<not> hasPositiveReinforcement code
      then (fst st, snd st @ [''Add positive reinforcement and celebration for user actions''])
      else st)"

record code_review =
  cr_issues :: "string list"
  cr_recommendations :: "string list"
  cr_isSafe :: bool

definition code_safety_review :: "string \<Rightarrow> code_review" where
  "code_safety_review code =
     (let st = check_positive_reinforcement code
                 (check_accessibility code
                   (check_stress_patterns code
                     (check_failure_states code ([], []))))
      in \<lparr> cr_issues = fst st, cr_recommendations = snd st, cr_isSafe = (length (fst st) = 0) \<rparr>)"

definition code_safety_text :: "code_review \<Rightarrow> string" where
  "code_safety_text r =
     ''TRAUMA-INFORMED CODE SAFETY REVIEW'' @ nl @ nl
     @ (if cr_isSafe r then check_mark @ '' CODE IS TRAUMA-SAFE''
        else warning_sign @ '' SAFETY ISSUES DETECTED'')
     @ nl @ nl
     @ (if length (cr_issues r) > 0
        then ''Issues Found:'' @ nl @ bullets (cr_issues r) @ nl @ nl
        else '''')
     @ ''Recommendations:'' @ nl @ bullets (cr_recommendations r) @ nl @ nl
     @ ''Trauma-Informed Coding Principles:'' @ nl
     @ ''- No failure states or negative feedback'' @ nl
     @ ''- Child maintains control and agency'' @ nl
     @ ''- Multiple pathways to success'' @ nl
     @ ''- Celebration of effort over accuracy'' @ nl
     @ ''- Stress detection and response'' @ nl
     @ ''- Accessibility for all learners''"

text \<open>The optional \<open>language\<close> argument defaults to \<open>typescript\<close> and is never read.\<close>

definition reviewCodeSafety :: "string \<Rightarrow> string option \<Rightarrow> tool_response" where
  "reviewCodeSafety code language_arg =
     (let language = (case language_arg of None \<Rightarrow> ''typescript'' | Some l \<Rightarrow> l)
      in TextContent (code_safety_text (code_safety_review code)))"

section \<open>generate_stress_protocol\<close>

record protocol =
  pr_detection :: "string list"
  pr_response :: "string list"
  pr_code :: string

definition behavioral_mild :: protocol where
  "behavioral_mild =
     \<lparr> pr_detection = [''Slower response times'', ''Repeated help requests'', ''Shorter responses''],
       pr_response = [''Offer encouragement'', ''Provide gentle hints'', ''Show progress made''],
       pr_code =
         nl @ ''if (responseTime > averageResponseTime * 1.5) {'' @ nl
         @ ''  showEncouragement(\"You're thinking carefully - that's great!\");'' @ nl
         @ ''  offerHint(currentChallenge);'' @ nl
         @ ''}'' \<rparr>"

definition behavioral_moderate :: protocol where
  "behavioral_moderate =
     \<lparr> pr_detection = [''Multiple wrong attempts'', ''Requesting to skip'', ''Visible frustration cues''],
       pr_response = [''Switch to easier content'', ''Offer break'', ''Provide comfort''],
       pr_code =
         nl @ ''if (consecutiveStruggles >= 3) {'' @ nl
         @ ''  switchToComfortMode();'' @ nl
         @ ''  showMessage(\"Let's try something fun together!\");'' @ nl
         @ ''  offerBreak();'' @ nl
         @ ''}'' \<rparr>"

definition behavioral_high :: protocol where
  "behavioral_high =
     \<lparr> pr_detection = [''Attempting to quit'', ''Silence after prompts'', ''Stress behaviors''],
       pr_response = [''Immediate comfort mode'', ''Breathing exercises'', ''End session positively''],
       pr_code =
         nl @ ''if (detectedHighStress()) {'' @ nl
         @ ''  immediateComfortMode();'' @ nl
         @ ''  showBreathingExercise();'' @ nl
         @ ''  celebrateWhatWasAccomplished();'' @ nl
         @ ''}'' \<rparr>"

definition physiological_mild :: protocol where
  "physiological_mild =
     \<lparr> pr_detection = [''HRV decrease 10-20%'', ''Heart rate increase 10-15%''],
       pr_response = [''Gentle pacing adjustment'', ''Calming visual cues''],
       pr_code =
         nl @ ''if (hrv < baseline * 0.8) {'' @ nl
         @ ''  adjustPacing(\"slower\");'' @ nl
         @ ''  showCalmingVisuals();'' @ nl
         @ ''}'' \<rparr>"

definition physiological_moderate :: protocol where
  "physiological_moderate =
     \<lparr> pr_detection = [''HRV decrease 20-30%'', ''Heart rate increase 15-25%''],
       pr_response = [''Pause activity'', ''Breathing guidance'', ''Comfort content''],
       pr_code =
         nl @ ''if (heartRate > baseline * 1.2) {'' @ nl
         @ ''  pauseCurrentActivity();'' @ nl
         @ ''  startBreathingGuide();'' @ nl
         @ ''  showComfortCharacter();'' @ nl
         @ ''}'' \<rparr>"

definition physiological_high :: protocol where
  "physiological_high =
     \<lparr> pr_detection = [''HRV decrease >30%'', ''Heart rate increase >25%''],
       pr_response = [''Immediate stop'', ''Full comfort mode'', ''Recovery focus''],
       pr_code =
         nl @ ''if (stressLevel === \"CRITICAL\") {'' @ nl
         @ ''  stopAllActivities();'' @ nl
         @ ''  activateFullComfortMode();'' @ nl
         @ ''  focusOnRecovery();'' @ nl
         @ ''  notifyParent();'' @ nl
         @ ''}'' \<rparr>"

definition protocols :: "(string \<times> (string \<times> protocol) list) list" where
  "protocols =
     [(''behavioral'',
         [(''mild'', behavioral_mild), (''moderate'', behavioral_moderate),
          (''high'', behavioral_high)]),
      (''physiological'',
         [(''mild'', physiological_mild), (''moderate'', physiological_moderate),
          (''high'', physiological_high)])]"

text \<open>
  \<^verbatim>\<open>protocols[triggerType]?.[severity]\<close>: a trigger type with no table yields \<^verbatim>\<open>undefined\<close>
  without reading the severity.
\<close>

definition select_protocol :: "string \<Rightarrow> string \<Rightarrow> protocol option" where
  "select_protocol triggerType severity =
     (case get_property protocols triggerType of
        None \<Rightarrow> None
      | Some table \<Rightarrow> get_property table severity)"

definition invalid_protocol_text :: string where
  "invalid_protocol_text =
     cross_mark @ '' Invalid protocol parameters. TriggerType must be 'behavioral' or 'physiological', severity must be 'mild', 'moderate', or 'high'.''"

definition stress_protocol_text :: "string \<Rightarrow> string \<Rightarrow> protocol \<Rightarrow> string" where
  "stress_protocol_text triggerType severity protocol =
     ''STRESS DETECTION & RESPONSE PROTOCOL'' @ nl @ nl
     @ ''Trigger: '' @ triggerType @ '' ('' @ severity @ '')'' @ nl @ nl
     @ ''Detection Indicators:'' @ nl
     @ bullets (pr_detection protocol) @ nl @ nl
     @ ''Response Actions:'' @ nl
     @ bullets (pr_response protocol) @ nl @ nl
     @ ''Implementation Code:'' @ nl
     @ ''```typescript'' @ pr_code protocol @ nl
     @ ''```'' @ nl @ nl
     @ ''Key Principles:'' @ nl
     @ ''- Child safety is paramount'' @ nl
     @ ''- Recovery before continuation'' @ nl
     @ ''- Positive framing of all interventions'' @ nl
     @ ''- Parent notification for high-stress events'' @ nl
     @ ''- Learning from stress patterns to prevent future episodes''"

definition generateStressProtocol :: "string \<Rightarrow> string \<Rightarrow> tool_response" where
  "generateStressProtocol triggerType severity =
     (case select_protocol triggerType severity of
        None \<Rightarrow> TextContent invalid_protocol_text
      | Some protocol \<Rightarrow> TextContent (stress_protocol_text triggerType severity protocol))"

section \<open>generate_engagement_activity\<close>

record theme_descriptor =
  th_setting :: string
  th_character :: string
  th_motivation :: string
  th_language :: string

definition themes :: "(string \<times> theme_descriptor) list" where
  "themes =
     [(''dragons'',
         \<lparr> th_setting = ''Ancient dragon linguistics academy'',
           th_character = ''Dragon language expert'',
           th_motivation = ''Decode ancient dragon communication patterns'',
           th_language = ''mystical, adventurous'' \<rparr>),
      (''space'',
         \<lparr> th_setting = ''Deep space communication center'',
           th_character = ''Alien linguistics specialist'',
           th_motivation = ''Establish first contact through sound patterns'',
           th_language = ''scientific, exploratory'' \<rparr>),
      (''magic'',
         \<lparr> th_setting = ''Academy of magical linguistics'',
           th_character = ''Spell-sound researcher'',
           th_motivation = ''Master sound frequencies for spell casting'',
           th_language = ''mystical, scholarly'' \<rparr>),
      (''animals'',
         \<lparr> th_setting = ''Wildlife communication research station'',
           th_character = ''Animal language expert'',
           th_motivation = ''Decode animal communication systems'',
           th_language = ''naturalistic, caring'' \<rparr>),
      (''adventure'',
         \<lparr> th_setting = ''Remote expedition base camp'',
           th_character = ''Expedition leader'',
           th_motivation = ''Navigate using ancient symbol systems'',
           th_language = ''adventurous but mature'' \<rparr>),
      (''mystery'',
         \<lparr> th_setting = ''International detective agency'',
           th_character = ''Senior investigator partner'',
           th_motivation = ''Crack coded messages in ongoing cases'',
           th_language = ''professional, investigative'' \<rparr>)]"

definition selectedTheme_of :: "string \<Rightarrow> theme_descriptor option" where
  "selectedTheme_of theme = get_property themes theme"

definition complexity_of :: "string \<Rightarrow> string" where
  "complexity_of stressLevel =
     (if stressLevel = ''high'' then ''simple''
      else if stressLevel = ''medium'' then ''moderate''
      else ''rich'')"

definition story_block :: "theme_descriptor \<Rightarrow> string \<Rightarrow> string \<Rightarrow> json" where
  "story_block selectedTheme phoneme complexity = JObj
     [(''setting'', JStr (th_setting selectedTheme)),
      (''character'', JStr (th_character selectedTheme)),
      (''hook'', JStr (th_motivation selectedTheme @ '' by analyzing the /'' @ phoneme
                        @ ''/ sound frequency'')),
      (''complexity'', JStr complexity),
      (''ageAppropriate'', JStr ''Designed for 12-year-old with foundational skill needs''),
      (''languageStyle'', JStr (th_language selectedTheme))]"

definition engagement_block :: json where
  "engagement_block = JObj
     [(''intrinsicMotivators'', JArr (map JStr
         [''Curiosity about story outcome'',
          ''Helping character achieve goal'',
          ''Exploring new story elements'',
          ''Creating personalized content''])),
      (''avoidedExtrinsics'', JArr (map JStr
         [''No time pressure'',
          ''No scoring/grading'',
          ''No comparison to others'',
          ''No failure states'']))]"

definition touch_interactions :: "string \<Rightarrow> json" where
  "touch_interactions phoneme = JObj
     [(''symbolTracing'', JStr (''Calibrate symbol recognition by tracing the /'' @ phoneme
                                 @ ''/ pattern'')),
      (''systemNavigation'', JStr ''Navigate interface elements to analyze communication data''),
      (''patternMatching'', JStr ''Connect symbol fragments using precise touch coordination''),
      (''frequencyTuning'', JStr ''Adjust audio frequencies through touch interface controls'')]"

definition voice_interactions :: "string \<Rightarrow> json" where
  "voice_interactions phoneme = JObj
     [(''frequencyAnalysis'', JStr (''Produce /'' @ phoneme
                                     @ ''/ sound to match detected frequency patterns'')),
      (''voiceAuthentication'', JStr ''Voice recognition system requires clear pronunciation''),
      (''communicationProtocol'', JStr ''Establish contact using proper sound frequencies''),
      (''audioTesting'', JStr ''Test voice clarity for communication system compatibility'')]"

definition camera_interactions :: "string \<Rightarrow> json" where
  "camera_interactions phoneme = JObj
     [(''symbolDocumentation'', JStr ''Document real-world examples of symbolic patterns''),
      (''fieldResearch'', JStr (''Capture evidence of /'' @ phoneme @ ''/ symbols in environment'')),
      (''progressArchiving'', JStr ''Create visual record of decoding achievements''),
      (''evidenceCollection'', JStr ''Photograph discoveries for case documentation'')]"

definition microphone_interactions :: json where
  "microphone_interactions = JObj
     [(''frequencyRecording'', JStr ''Record voice patterns for system analysis''),
      (''audioCustomization'', JStr ''Personalize communication system voice settings''),
      (''soundEngineering'', JStr ''Create audio profiles for different scenarios''),
      (''breathingCalibration'', JStr ''Calibrate focus enhancement through breathing patterns'')]"

definition bluetooth_interactions :: json where
  "bluetooth_interactions = JObj
     [(''deviceSync'', JStr ''Connect with specialized learning devices''),
      (''dataSharing'', JStr ''Share progress with research team''),
      (''collaborativeMode'', JStr ''Work with other researchers remotely'')]"

definition interactions_block :: "string \<Rightarrow> string list \<Rightarrow> (string \<times> json) list" where
  "interactions_block phoneme inputMethods =
     (let interactions = [];
          interactions = (if arr_includes inputMethods ''touch''
                          then set_property interactions ''touch'' (touch_interactions phoneme)
                          else interactions);
          interactions = (if arr_includes inputMethods ''voice''
                          then set_property interactions ''voice'' (voice_interactions phoneme)
                          else interactions);
          interactions = (if arr_includes inputMethods ''camera''
                          then set_property interactions ''camera'' (camera_interactions phoneme)
                          else interactions);
          interactions = (if arr_includes inputMethods ''microphone''
                          then set_property interactions ''microphone'' microphone_interactions
                          else interactions);
          interactions = (if arr_includes inputMethods ''bluetooth''
                          then set_property interactions ''bluetooth'' bluetooth_interactions
                          else interactions)
      in interactions)"

definition stressAdaptations_block :: json where
  "stressAdaptations_block = JObj
     [(''simplifiedInterface'', JStr ''Reduce cognitive load with cleaner interface design''),
      (''mentorSupport'', JStr ''Expert mentor provides additional guidance and encouragement''),
      (''focusEnhancement'',
         JStr ''Activate concentration support systems and calming protocols''),
      (''autonomousControl'', JStr ''Full user control over pacing and session management'')]"

text \<open>
  The activity object: \<open>story\<close>, \<open>interactions\<close> and \<open>engagement\<close>, and \<open>stressAdaptations\<close>
  when the stress level is \<open>high\<close>.
\<close>

definition engagement_activity ::
  "theme_descriptor \<Rightarrow> string \<Rightarrow> string list \<Rightarrow> string \<Rightarrow> (string \<times> json) list" where
  "engagement_activity selectedTheme phoneme inputMethods stressLevel =
     (let complexity = complexity_of stressLevel;
          activity = [(''story'', story_block selectedTheme phoneme complexity),
                      (''interactions'', JObj []),
                      (''engagement'', engagement_block)];
          activity = set_property activity ''interactions''
                       (JObj (interactions_block phoneme inputMethods));
          activity = (if stressLevel = ''high''
                      then set_property activity ''stressAdaptations'' stressAdaptations_block
                      else activity)
      in activity)"

text \<open>
  The report reads the blocks back from the activity object; an absent block would print
  as \<^verbatim>\<open>undefined\<close> (\<open>stressAdaptations\<close> is read only when the stress level is \<open>high\<close>).
\<close>

definition stringify_property ::
  "js_builtins \<Rightarrow> (string \<times> json) list \<Rightarrow> string \<Rightarrow> string" where
  "stringify_property js obj k =
     (case get_property obj k of None \<Rightarrow> ''undefined'' | Some v \<Rightarrow> JSON_stringify_2 js v)"

definition engagement_activity_text ::
  "js_builtins \<Rightarrow> string \<Rightarrow> string \<Rightarrow> string \<Rightarrow> (string \<times> json) list \<Rightarrow> string" where
  "engagement_activity_text js phoneme theme stressLevel activity =
     ''AGE-APPROPRIATE ENGAGEMENT ACTIVITY (Age 12, Foundational Skills)'' @ nl @ nl
     @ ''Phoneme: /'' @ phoneme @ ''/'' @ nl
     @ ''Theme: '' @ theme @ nl
     @ ''Stress Level: '' @ stressLevel @ nl @ nl
     @ ''Story Framework:'' @ nl
     @ stringify_property js activity ''story'' @ nl @ nl
     @ ''Age-Appropriate Interactions:'' @ nl
     @ stringify_property js activity ''interactions'' @ nl @ nl
     @ ''Engagement Strategy:'' @ nl
     @ stringify_property js activity ''engagement'' @ nl @ nl
     @ (if stressLevel = ''high''
        then ''Stress Adaptations:'' @ nl @ stringify_property js activity ''stressAdaptations''
             @ nl @ nl
        else '''')
     @ ''DIGNITY-PRESERVING DESIGN:'' @ nl
     @ ''- Language treats user as capable young adult'' @ nl
     @ ''- Context provides sophisticated framework for basic skills'' @ nl
     @ ''- Visual design avoids childish aesthetics'' @ nl
     @ ''- Peer interaction safe (looks like advanced training)'' @ nl
     @ ''- Self-concept protected through expert apprentice role'' @ nl @ nl
     @ ''DEVELOPMENTAL APPROPRIATENESS:'' @ nl
     @ ''- Acknowledges 12-year-old cognitive abilities'' @ nl
     @ ''- Respects emotional maturity needs  '' @ nl
     @ ''- Provides foundation skills without shame'' @ nl
     @ ''- Maintains social dignity with peers/family'' @ nl
     @ ''- Future-oriented (builds toward advanced abilities)''"

text \<open>
  The optional \<open>stressLevel\<close> defaults to \<open>low\<close>. A theme with no entry in the table leaves
  \<open>selectedTheme\<close> undefined, and reading its \<open>setting\<close> throws.
\<close>

definition generateEngagementActivity ::
  "js_builtins \<Rightarrow> string \<Rightarrow> string \<Rightarrow> string list \<Rightarrow> string option
     \<Rightarrow> js_error + tool_response" where
  "generateEngagementActivity js phoneme theme inputMethods stressLevel_arg =
     (let stressLevel = (case stressLevel_arg of None \<Rightarrow> ''low'' | Some s \<Rightarrow> s)
      in case selectedTheme_of theme of
           None \<Rightarrow> Inl (TypeError ''Cannot read properties of undefined (reading 'setting')'')
         | Some selectedTheme \<Rightarrow>
             Inr (TextContent (engagement_activity_text js phoneme theme stressLevel
                    (engagement_activity selectedTheme phoneme inputMethods stressLevel))))"

section \<open>validate_engagement_safety\<close>

definition redFlags :: "string list" where
  "redFlags =
     [''score'', ''points'', ''leaderboard'', ''competition'', ''timer'', ''deadline'',
      ''fail'', ''lose'', ''wrong'', ''mistake'', ''try again'', ''beat'', ''win'',
      ''achievement'', ''badge'', ''unlock'', ''earn'', ''reward points'']"

definition safeAlternatives :: "string list" where
  "safeAlternatives =
     [''progress'', ''growth'', ''discovery'', ''exploration'', ''help'', ''support'',
      ''learn'', ''practice'', ''try'', ''explore'', ''discover'', ''create'']"

definition red_flag_issue :: "string \<Rightarrow> string" where
  "red_flag_issue flag = ''Contains potentially pressuring element: \"'' @ flag @ ''\"''"

text \<open>
  The state of the scan is the pair of the arrays \<open>issues\<close> and \<open>recommendations\<close>. The
  loop over the red flags pushes onto \<open>issues\<close> only.
\<close>

definition scan_red_flags :: "string \<Rightarrow> findings \<Rightarrow> findings" where
  "scan_red_flags mechanicLower st =
     (foldl (\<lambda>issues flag.
               if str_includes mechanicLower flag then issues @ [red_flag_issue flag] else issues)
        (fst st) redFlags,
      snd st)"

definition check_extrinsic :: "string \<Rightarrow> findings \<Rightarrow> findings" where
  "check_extrinsic mechanicLower st =
     (if str_includes mechanicLower ''reward'' \<or> str_includes mechanicLower ''prize''
      then (fst st @ [''Uses extrinsic rewards which may undermine intrinsic motivation''],
            snd st @ [''Focus on intrinsic motivators: curiosity, mastery, autonomy, purpose''])
      else st)"

definition check_comparison :: "string \<Rightarrow> findings \<Rightarrow> findings" where
  "check_comparison mechanicLower st =
     (if str_includes mechanicLower ''compare'' \<or> str_includes mechanicLower ''better than''
      then (fst st @ [''Includes comparison which can trigger shame in struggling readers''],
            snd st @ [''Focus on individual growth and personal achievement''])
      else st)"

definition check_time_pressure :: "string \<Rightarrow> findings \<Rightarrow> findings" where
  "check_time_pressure mechanicLower st =
     (if str_includes mechanicLower ''time'' \<or> str_includes mechanicLower ''speed''
         \<or> str_includes mechanicLower ''fast''
      then (fst st @ [''May create time pressure which causes stress in dyslexic learners''],
            snd st @ [''Remove time elements or make them invisible/optional''])
      else st)"

definition positive_recommendations :: "string list" where
  "positive_recommendations =
     [''Consider adding story elements that create emotional investment'',
      ''Ensure child has agency and control over the experience'',
      ''Connect to helping others or solving meaningful problems'']"

definition add_positive_recommendations :: "findings \<Rightarrow> findings" where
  "add_positive_recommendations st =
     (if length (fst st) = 0 then (fst st, snd st @ positive_recommendations) else st)"

record engagement_review =
  er_issues :: "string list"
  er_recommendations :: "string list"
  er_isSafe :: bool

definition engagement_safety_review :: "js_builtins \<Rightarrow> string \<Rightarrow> engagement_review" where
  "engagement_safety_review js mechanic =
     (let mechanicLower = toLowerCase js mechanic;
          st = add_positive_recommendations
                 (check_time_pressure mechanicLower
                   (check_comparison mechanicLower
                     (check_extrinsic mechanicLower
                       (scan_red_flags mechanicLower ([], [])))))
      in \<lparr> er_issues = fst st, er_recommendations = snd st,
           er_isSafe = (length (fst st) = 0) \<rparr>)"

definition engagement_safety_text :: "string \<Rightarrow> string \<Rightarrow> engagement_review \<Rightarrow> string" where
  "engagement_safety_text mechanic context r =
     ''ENGAGEMENT SAFETY VALIDATION'' @ nl @ nl
     @ ''Mechanic: \"'' @ mechanic @ ''\"'' @ nl
     @ ''Context: '' @ context @ nl @ nl
     @ (if er_isSafe r then check_mark @ '' TRAUMA-SAFE ENGAGEMENT''
        else warning_sign @ '' POTENTIAL ISSUES DETECTED'')
     @ nl @ nl
     @ (if length (er_issues r) > 0
        then ''Issues Found:'' @ nl @ bullets (er_issues r) @ nl @ nl
        else '''')
     @ ''Recommendations:'' @ nl
     @ bullets (er_recommendations r) @ nl @ nl
     @ ''Safe Engagement Principles:'' @ nl
     @ ''- Intrinsic motivation (curiosity, mastery, purpose)'' @ nl
     @ ''- Child agency and control'' @ nl
     @ ''- No performance pressure or comparison'' @ nl
     @ ''- Story-driven emotional investment'' @ nl
     @ ''- Multiple pathways to success'' @ nl
     @ ''- Celebration of effort over accuracy'' @ nl @ nl
     @ ''Trauma-Informed Alternatives:'' @ nl
     @ join nl (map (\<lambda>alt. ''- Use \"'' @ alt @ ''\" instead of pressure-based language'')
                  safeAlternatives)"

text \<open>The optional \<open>context\<close> defaults to the empty string.\<close>

definition validateEngagementSafety ::
  "js_builtins \<Rightarrow> string \<Rightarrow> string option \<Rightarrow> tool_response" where
  "validateEngagementSafety js mechanic context_arg =
     (let context = (case context_arg of None \<Rightarrow> '''' | Some c \<Rightarrow> c)
      in TextContent (engagement_safety_text mechanic context (engagement_safety_review js mechanic)))"

section \<open>Notions of the specification\<close>

text \<open>\<open>occurs_in t s\<close>: the text \<open>t\<close> is a substring of \<open>s\<close>.\<close>

definition occurs_in :: "string \<Rightarrow> string \<Rightarrow> bool" where
  "occurs_in t s \<longleftrightarrow> (\<exists>p r. s = p @ t @ r)"

text \<open>
  \<open>contains_ci js content phrase\<close>: \<open>content\<close> contains \<open>phrase\<close> as a substring, letter case
  ignored: the lower-cased phrase is a substring of the lower-cased content.
\<close>

definition contains_ci :: "js_builtins \<Rightarrow> string \<Rightarrow> string \<Rightarrow> bool" where
  "contains_ci js content phrase \<longleftrightarrow>
     occurs_in (toLowerCase js phrase) (toLowerCase js content)"

text \<open>
  The issue message for a phrase of the avoid list as the specification words it, with
  the phrase between single quotes.
\<close>

definition spec_triggering_word_issue :: "string \<Rightarrow> string" where
  "spec_triggering_word_issue phrase =
     ''Contains potentially triggering word: '' @ sq @ phrase @ sq"

text \<open>
  The four rule families of the engagement-safety validator, as the specification lists
  them, each matched by substring search in the lower-cased mechanic.
\<close>

definition red_flag_phrases :: "string list" where
  "red_flag_phrases =
     [''score'', ''points'', ''leaderboard'', ''competition'', ''timer'', ''deadline'',
      ''fail'', ''lose'', ''wrong'', ''mistake'', ''try again'', ''beat'', ''win'',
      ''achievement'', ''badge'', ''unlock'', ''earn'', ''reward points'']"

definition matched_red_flags :: "js_builtins \<Rightarrow> string \<Rightarrow> string list" where
  "matched_red_flags js mechanic =
     filter (\<lambda>flag. occurs_in flag (toLowerCase js mechanic)) red_flag_phrases"

definition family_matches :: "js_builtins \<Rightarrow> string list \<Rightarrow> string \<Rightarrow> bool" where
  "family_matches js phrases mechanic \<longleftrightarrow>
     list_ex (\<lambda>phrase. occurs_in phrase (toLowerCase js mechanic)) phrases"

definition extrinsic_reward_phrases :: "string list" where
  "extrinsic_reward_phrases = [''reward'', ''prize'']"

definition comparison_phrases :: "string list" where
  "comparison_phrases = [''compare'', ''better than'']"

definition time_pressure_phrases :: "string list" where
  "time_pressure_phrases = [''time'', ''speed'', ''fast'']"

text \<open>What a family adds to a list when it matches: its one message, else nothing.\<close>

definition contributes :: "bool \<Rightarrow> string \<Rightarrow> string list" where
  "contributes matched message = (if matched then [message] else [])"

definition family_issues :: "js_builtins \<Rightarrow> string \<Rightarrow> string list" where
  "family_issues js mechanic =
     map (\<lambda>flag. ''Contains potentially pressuring element: '' @ dq @ flag @ dq)
       (matched_red_flags js mechanic)
     @ contributes (family_matches js extrinsic_reward_phrases mechanic)
         ''Uses extrinsic rewards which may undermine intrinsic motivation''
     @ contributes (family_matches js comparison_phrases mechanic)
         ''Includes comparison which can trigger shame in struggling readers''
     @ contributes (family_matches js time_pressure_phrases mechanic)
         ''May create time pressure which causes stress in dyslexic learners''"

definition family_recommendations :: "js_builtins \<Rightarrow> string \<Rightarrow> string list" where
  "family_recommendations js mechanic =
     contributes (family_matches js extrinsic_reward_phrases mechanic)
       ''Focus on intrinsic motivators: curiosity, mastery, autonomy, purpose''
     @ contributes (family_matches js comparison_phrases mechanic)
         ''Focus on individual growth and personal achievement''
     @ contributes (family_matches js time_pressure_phrases mechanic)
         ''Remove time elements or make them invisible/optional''"

definition proactive_suggestions :: "string list" where
  "proactive_suggestions =
     [''Consider adding story elements that create emotional investment'',
      ''Ensure child has agency and control over the experience'',
      ''Connect to helping others or solving meaningful problems'']"

text \<open>
  \<open>returns_populated_protocol triggerType severity\<close>: the selector finds a protocol whose
  detection and response sequences are both non-empty, and the handler returns the report
  of that protocol.
\<close>

definition returns_populated_protocol :: "string \<Rightarrow> string \<Rightarrow> bool" where
  "returns_populated_protocol triggerType severity =
     (case select_protocol triggerType severity of
        None \<Rightarrow> False
      | Some protocol \<Rightarrow>
          pr_detection protocol \<noteq> [] \<and> pr_response protocol \<noteq> []
          \<and> generateStressProtocol triggerType severity
              = TextContent (stress_protocol_text triggerType severity protocol))"

text \<open>
  The flattened text of an activity that the OG validator searches, and the modality
  names that occur in it.
\<close>

definition flattened_text :: "js_builtins \<Rightarrow> json \<Rightarrow> string" where
  "flattened_text js activity = toLowerCase js (JSON_stringify js activity)"

definition modality_names :: "string set" where
  "modality_names = {''visual'', ''auditory'', ''kinesthetic'', ''tactile''}"

definition modalities_mentioned :: "js_builtins \<Rightarrow> json \<Rightarrow> string set" where
  "modalities_mentioned js activity =
     {m \<in> modality_names. occurs_in m (flattened_text js activity)}"

text \<open>
  \<open>keeps_lower_case js ws\<close>: the engine's \<open>toLowerCase\<close> returns each of the texts \<open>ws\<close>
  unchanged. The texts it is asked of here are lower-case ASCII letters.
\<close>

definition keeps_lower_case :: "js_builtins \<Rightarrow> string list \<Rightarrow> bool" where
  "keeps_lower_case js ws \<longleftrightarrow> list_all (\<lambda>w. toLowerCase js w = w) ws"

chapter \<open>Properties\<close>

section \<open>Facts about strings and loops\<close>

lemma startsWith_iff: "startsWith s t \<longleftrightarrow> (\<exists>r. s = t @ r)"
  by (induction s t rule: startsWith.induct) auto

lemma str_includes_iff: "str_includes s t \<longleftrightarrow> (\<exists>p r. s = p @ t @ r)"
proof (induction s)
  case Nil
  then show ?case by auto
next
  case (Cons c s)
  show ?case
  proof
    assume "str_includes (c # s) t"
    then consider "startsWith (c # s) t" | "str_includes s t" by auto
    then show "\<exists>p r. c # s = p @ t @ r"
    proof cases
      case 1
      then obtain r where "c # s = t @ r" by (auto simp: startsWith_iff)
      then have "c # s = [] @ t @ r" by simp
      then show ?thesis by blast
    next
      case 2
      then obtain p r where "s = p @ t @ r" using Cons.IH by blast
      then have "c # s = (c # p) @ t @ r" by simp
      then show ?thesis by blast
    qed
  next
    assume "\<exists>p r. c # s = p @ t @ r"
    then obtain p r where eq: "c # s = p @ t @ r" by blast
    show "str_includes (c # s) t"
    proof (cases p)
      case Nil
      with eq have "startsWith (c # s) t" by (auto simp: startsWith_iff)
      then show ?thesis by simp
    next
      case (Cons d p')
      with eq have "s = p' @ t @ r" by simp
      then have "str_includes s t" using Cons.IH by blast
      then show ?thesis by simp
    qed
  qed
qed

lemma occurs_in_iff: "occurs_in t s \<longleftrightarrow> str_includes s t"
  by (simp add: occurs_in_def str_includes_iff)

lemma contains_ci_iff:
  "contains_ci js content phrase \<longleftrightarrow>
     str_includes (toLowerCase js content) (toLowerCase js phrase)"
  by (simp add: contains_ci_def occurs_in_iff)

text \<open>The two notions are evaluated through the searches they are equivalent to.\<close>

declare occurs_in_iff [code]
declare contains_ci_iff [code]

text \<open>A \<^verbatim>\<open>forEach\<close> that pushes one message per matching element.\<close>

lemma foldl_push:
  "foldl (\<lambda>acc w. if P w then acc @ [f w] else acc) acc ws = acc @ map f (filter P ws)"
  by (induction ws arbitrary: acc) auto

lemma set_filter_member: "set ys \<subseteq> set xs \<Longrightarrow> set (filter (\<lambda>m. m \<in> set ys) xs) = set ys"
  by auto

section \<open>Properties of review_trauma_content\<close>

lemma trauma_issues:
  "tr_issues (trauma_content_review js content) =
     map triggering_word_issue
       (filter (\<lambda>w. str_includes (toLowerCase js content) (toLowerCase js w))
          (tip_avoid TRAUMA_INFORMED_PRINCIPLES))
     @ map pressure_word_issue
         (filter (\<lambda>w. str_includes (toLowerCase js content) w) pressureWords)"
  by (simp add: trauma_content_review_def scan_avoid_def scan_pressure_def foldl_push Let_def)

lemma trauma_flag:
  "tr_isTraumaInformed (trauma_content_review js content) \<longleftrightarrow>
     tr_issues (trauma_content_review js content) = []"
  by (simp add: trauma_content_review_def Let_def)

text \<open>
  C1, as the specification words it, fails on the message text: for the content \<open>wrong\<close>,
  which contains the avoid phrase \<open>wrong\<close>, no issue reads
  \<^verbatim>\<open>Contains potentially triggering word: 'wrong'\<close> with single quotes.
\<close>

theorem reviewTraumaContent_single_quote_counterexample:
  "''wrong'' \<in> set (tip_avoid TRAUMA_INFORMED_PRINCIPLES)
   \<and> contains_ci ascii_builtins ''wrong'' ''wrong''
   \<and> spec_triggering_word_issue ''wrong''
       \<notin> set (tr_issues (trauma_content_review ascii_builtins ''wrong''))"
  by code_simp

text \<open>
  C1, amended. If the content contains a phrase of the avoid list as a substring, letter
  case ignored, the review is not compliant and its issues include the message
  \<^verbatim>\<open>Contains potentially triggering word: "<phrase>"\<close>, the phrase between double quotes.
  If the content contains no avoid phrase, letter case ignored, and no pressure word
  occurs in the lower-cased content, the review is compliant and its issues are empty.
  This holds for every content and whatever the engine's \<open>toLowerCase\<close> returns.
\<close>

theorem reviewTraumaContent_sound:
  "(phrase \<in> set (tip_avoid TRAUMA_INFORMED_PRINCIPLES) \<and> contains_ci js content phrase \<longrightarrow>
      \<not> tr_isTraumaInformed (trauma_content_review js content)
      \<and> ''Contains potentially triggering word: '' @ dq @ phrase @ dq
          \<in> set (tr_issues (trauma_content_review js content)))
   \<and> ((\<forall>w \<in> set (tip_avoid TRAUMA_INFORMED_PRINCIPLES). \<not> contains_ci js content w)
       \<and> (\<forall>w \<in> set pressureWords. \<not> occurs_in w (toLowerCase js content)) \<longrightarrow>
      tr_isTraumaInformed (trauma_content_review js content)
      \<and> tr_issues (trauma_content_review js content) = [])"
proof (intro conjI impI)
  assume h: "phrase \<in> set (tip_avoid TRAUMA_INFORMED_PRINCIPLES) \<and> contains_ci js content phrase"
  have msg: "''Contains potentially triggering word: '' @ dq @ phrase @ dq
               = triggering_word_issue phrase"
    by (simp add: triggering_word_issue_def dq_def)
  from h have "triggering_word_issue phrase \<in> set (tr_issues (trauma_content_review js content))"
    by (auto simp: trauma_issues contains_ci_iff)
  then show in_issues: "''Contains potentially triggering word: '' @ dq @ phrase @ dq
      \<in> set (tr_issues (trauma_content_review js content))"
    by (simp only: msg)
  then show "\<not> tr_isTraumaInformed (trauma_content_review js content)"
    by (auto simp: trauma_flag)
next
  assume h: "(\<forall>w \<in> set (tip_avoid TRAUMA_INFORMED_PRINCIPLES). \<not> contains_ci js content w)
       \<and> (\<forall>w \<in> set pressureWords. \<not> occurs_in w (toLowerCase js content))"
  have a: "filter (\<lambda>w. str_includes (toLowerCase js content) (toLowerCase js w))
             (tip_avoid TRAUMA_INFORMED_PRINCIPLES) = []"
    using h by (auto simp: filter_empty_conv contains_ci_iff)
  have b: "filter (\<lambda>w. str_includes (toLowerCase js content) w) pressureWords = []"
    using h by (auto simp: filter_empty_conv occurs_in_iff)
  show "tr_issues (trauma_content_review js content) = []"
    by (simp add: trauma_issues a b)
  then show "tr_isTraumaInformed (trauma_content_review js content)"
    by (simp add: trauma_flag)
qed

theorem reviewTraumaContent_sound_witness:
  "\<not> tr_isTraumaInformed (trauma_content_review ascii_builtins ''You got that WRONG! Try again.'')
   \<and> ''Contains potentially triggering word: '' @ dq @ ''wrong'' @ dq
       \<in> set (tr_issues (trauma_content_review ascii_builtins ''You got that WRONG! Try again.''))
   \<and> tr_isTraumaInformed
       (trauma_content_review ascii_builtins ''Let's practice this sound together.'')
   \<and> tr_issues (trauma_content_review ascii_builtins ''Let's practice this sound together.'')
       = []"
proof -
  have 1: "''wrong'' \<in> set (tip_avoid TRAUMA_INFORMED_PRINCIPLES)
           \<and> contains_ci ascii_builtins ''You got that WRONG! Try again.'' ''wrong''"
    by code_simp
  have 2: "(\<forall>w \<in> set (tip_avoid TRAUMA_INFORMED_PRINCIPLES).
              \<not> contains_ci ascii_builtins ''Let's practice this sound together.'' w)
           \<and> (\<forall>w \<in> set pressureWords.
              \<not> occurs_in w (toLowerCase ascii_builtins ''Let's practice this sound together.''))"
    by code_simp
  from 1 2
    reviewTraumaContent_sound [of "''wrong''" ascii_builtins "''You got that WRONG! Try again.''"]
    reviewTraumaContent_sound [of "''wrong''" ascii_builtins
      "''Let's practice this sound together.''"]
  show ?thesis by blast
qed

section \<open>Properties of validate_engagement_safety\<close>

lemma engagement_issues:
  "er_issues (engagement_safety_review js mechanic) =
     map red_flag_issue (filter (str_includes (toLowerCase js mechanic)) redFlags)
     @ (if str_includes (toLowerCase js mechanic) ''reward''
           \<or> str_includes (toLowerCase js mechanic) ''prize''
        then [''Uses extrinsic rewards which may undermine intrinsic motivation''] else [])
     @ (if str_includes (toLowerCase js mechanic) ''compare''
           \<or> str_includes (toLowerCase js mechanic) ''better than''
        then [''Includes comparison which can trigger shame in struggling readers''] else [])
     @ (if str_includes (toLowerCase js mechanic) ''time''
           \<or> str_includes (toLowerCase js mechanic) ''speed''
           \<or> str_includes (toLowerCase js mechanic) ''fast''
        then [''May create time pressure which causes stress in dyslexic learners''] else [])"
  by (simp add: engagement_safety_review_def Let_def add_positive_recommendations_def
      check_time_pressure_def check_comparison_def check_extrinsic_def scan_red_flags_def
      foldl_push)

lemma engagement_recommendations:
  "er_recommendations (engagement_safety_review js mechanic) =
     (if str_includes (toLowerCase js mechanic) ''reward''
         \<or> str_includes (toLowerCase js mechanic) ''prize''
      then [''Focus on intrinsic motivators: curiosity, mastery, autonomy, purpose''] else [])
     @ (if str_includes (toLowerCase js mechanic) ''compare''
           \<or> str_includes (toLowerCase js mechanic) ''better than''
        then [''Focus on individual growth and personal achievement''] else [])
     @ (if str_includes (toLowerCase js mechanic) ''time''
           \<or> str_includes (toLowerCase js mechanic) ''speed''
           \<or> str_includes (toLowerCase js mechanic) ''fast''
        then [''Remove time elements or make them invisible/optional''] else [])
     @ (if er_issues (engagement_safety_review js mechanic) = []
        then [''Consider adding story elements that create emotional investment'',
              ''Ensure child has agency and control over the experience'',
              ''Connect to helping others or solving meaningful problems'']
        else [])"
  by (simp add: engagement_safety_review_def Let_def add_positive_recommendations_def
      check_time_pressure_def check_comparison_def check_extrinsic_def scan_red_flags_def
      foldl_push positive_recommendations_def)

text \<open>
  C2, as the specification words it, fails for the red-flag family: the mechanic \<open>score\<close>
  matches the red flag \<open>score\<close> and gets its issue, but no recommendation at all.
\<close>

theorem validateEngagementSafety_red_flag_counterexample:
  "''score'' \<in> set redFlags
   \<and> str_includes (toLowerCase ascii_builtins ''score'') ''score''
   \<and> er_issues (engagement_safety_review ascii_builtins ''score'')
       = [''Contains potentially pressuring element: '' @ dq @ ''score'' @ dq]
   \<and> er_recommendations (engagement_safety_review ascii_builtins ''score'') = []"
  by code_simp

text \<open>
  C2, amended. The four rule families are evaluated in the fixed order red flags,
  extrinsic reward, comparison, time pressure, on the lower-cased mechanic. The red-flag
  family contributes one issue for each of its phrases that occurs, in the order of the
  list, and no recommendation. Each of the other three families contributes one issue and
  one recommendation when one of its phrases occurs. When no issue at all was found, the
  recommendations are exactly the three positive-design suggestions. This holds for every
  mechanic and whatever the engine's \<open>toLowerCase\<close> returns.
\<close>

theorem validateEngagementSafety_families:
  "er_issues (engagement_safety_review js mechanic) = family_issues js mechanic
   \<and> er_recommendations (engagement_safety_review js mechanic) =
       family_recommendations js mechanic
       @ (if er_issues (engagement_safety_review js mechanic) = [] then proactive_suggestions else [])
   \<and> length proactive_suggestions = 3"
proof (intro conjI)
  have flag: "red_flag_issue = (\<lambda>flag. ''Contains potentially pressuring element: '' @ dq @ flag @ dq)"
    by (rule ext) (simp add: red_flag_issue_def dq_def)
  have search: "str_includes (toLowerCase js mechanic) = (\<lambda>flag. occurs_in flag (toLowerCase js mechanic))"
    by (rule ext) (simp add: occurs_in_iff)
  have flags: "redFlags = red_flag_phrases"
    by (simp add: redFlags_def red_flag_phrases_def)
  show "er_issues (engagement_safety_review js mechanic) = family_issues js mechanic"
    unfolding family_issues_def matched_red_flags_def family_matches_def contributes_def
      extrinsic_reward_phrases_def comparison_phrases_def time_pressure_phrases_def
      flag [symmetric] search [symmetric] flags [symmetric] occurs_in_iff
    by (simp add: engagement_issues)
  show "er_recommendations (engagement_safety_review js mechanic) =
       family_recommendations js mechanic
       @ (if er_issues (engagement_safety_review js mechanic) = [] then proactive_suggestions else [])"
    unfolding family_recommendations_def family_matches_def contributes_def
      extrinsic_reward_phrases_def comparison_phrases_def time_pressure_phrases_def
      proactive_suggestions_def occurs_in_iff
    by (simp add: engagement_recommendations)
  show "length proactive_suggestions = 3"
    by (simp add: proactive_suggestions_def)
qed

theorem validateEngagementSafety_families_witness:
  "er_issues (engagement_safety_review ascii_builtins ''Timer-based challenges with leaderboard scoring'') =
     [''Contains potentially pressuring element: \"leaderboard\"'',
      ''Contains potentially pressuring element: \"timer\"'',
      ''May create time pressure which causes stress in dyslexic learners'']
   \<and> er_recommendations
         (engagement_safety_review ascii_builtins ''Timer-based challenges with leaderboard scoring'') =
     [''Remove time elements or make them invisible/optional'']"
proof -
  have issues: "family_issues ascii_builtins ''Timer-based challenges with leaderboard scoring'' =
     [''Contains potentially pressuring element: \"leaderboard\"'',
      ''Contains potentially pressuring element: \"timer\"'',
      ''May create time pressure which causes stress in dyslexic learners'']"
    by code_simp
  have recs: "family_recommendations ascii_builtins ''Timer-based challenges with leaderboard scoring'' =
     [''Remove time elements or make them invisible/optional'']"
    by code_simp
  from validateEngagementSafety_families
    [of ascii_builtins "''Timer-based challenges with leaderboard scoring''"]
  show ?thesis
    unfolding issues recs by simp
qed

section \<open>Properties of generate_stress_protocol\<close>

lemma populated_pairs:
  "list_all (\<lambda>triggerType. list_all (returns_populated_protocol triggerType) severity_enum)
     [''behavioral'', ''physiological'']"
  by code_simp

lemma no_performance_table: "get_property protocols ''performance'' = None"
  by code_simp

text \<open>
  C3. For each trigger type \<open>behavioral\<close> or \<open>physiological\<close> and each declared severity
  (\<open>mild\<close>, \<open>moderate\<close>, \<open>high\<close>), the handler returns the report of a protocol whose
  detection and response sequences are non-empty. For the declared trigger type
  \<open>performance\<close>, whatever the severity, it returns the invalid-parameters text as a normal
  response.
\<close>

theorem generateStressProtocol_coverage:
  "(triggerType \<in> {''behavioral'', ''physiological''}
      \<and> severity \<in> set severity_enum \<longrightarrow>
      (\<exists>protocol. select_protocol triggerType severity = Some protocol
          \<and> pr_detection protocol \<noteq> [] \<and> pr_response protocol \<noteq> []
          \<and> generateStressProtocol triggerType severity
              = TextContent (stress_protocol_text triggerType severity protocol)))
   \<and> ''performance'' \<in> set triggerType_enum
   \<and> generateStressProtocol ''performance'' any_severity =
       TextContent (cross_mark @ '' Invalid protocol parameters. TriggerType must be ''
         @ sq @ ''behavioral'' @ sq @ '' or '' @ sq @ ''physiological'' @ sq
         @ '', severity must be '' @ sq @ ''mild'' @ sq @ '', '' @ sq @ ''moderate'' @ sq
         @ '', or '' @ sq @ ''high'' @ sq @ ''.'')"
proof (intro conjI impI)
  assume dom: "triggerType \<in> {''behavioral'', ''physiological''}
                \<and> severity \<in> set severity_enum"
  with populated_pairs have "returns_populated_protocol triggerType severity"
    by (auto simp: list_all_iff)
  then show "\<exists>protocol. select_protocol triggerType severity = Some protocol
          \<and> pr_detection protocol \<noteq> [] \<and> pr_response protocol \<noteq> []
          \<and> generateStressProtocol triggerType severity
              = TextContent (stress_protocol_text triggerType severity protocol)"
    by (auto simp: returns_populated_protocol_def split: option.splits)
next
  show "''performance'' \<in> set triggerType_enum"
    by (simp add: triggerType_enum_def)
next
  have msg: "invalid_protocol_text =
       cross_mark @ '' Invalid protocol parameters. TriggerType must be ''
         @ sq @ ''behavioral'' @ sq @ '' or '' @ sq @ ''physiological'' @ sq
         @ '', severity must be '' @ sq @ ''mild'' @ sq @ '', '' @ sq @ ''moderate'' @ sq
         @ '', or '' @ sq @ ''high'' @ sq @ ''.''"
    by code_simp
  have "generateStressProtocol ''performance'' any_severity = TextContent invalid_protocol_text"
    by (simp add: generateStressProtocol_def select_protocol_def no_performance_table)
  then show "generateStressProtocol ''performance'' any_severity =
       TextContent (cross_mark @ '' Invalid protocol parameters. TriggerType must be ''
         @ sq @ ''behavioral'' @ sq @ '' or '' @ sq @ ''physiological'' @ sq
         @ '', severity must be '' @ sq @ ''mild'' @ sq @ '', '' @ sq @ ''moderate'' @ sq
         @ '', or '' @ sq @ ''high'' @ sq @ ''.'')"
    by (simp only: msg)
qed

theorem generateStressProtocol_coverage_witness:
  "\<exists>protocol. select_protocol ''physiological'' ''high'' = Some protocol
      \<and> pr_detection protocol \<noteq> [] \<and> pr_response protocol \<noteq> []
      \<and> generateStressProtocol ''physiological'' ''high''
          = TextContent (stress_protocol_text ''physiological'' ''high'' protocol)"
proof -
  have dom: "''physiological'' \<in> {''behavioral'', ''physiological''}
              \<and> ''high'' \<in> set severity_enum"
    by (simp add: severity_enum_def)
  from generateStressProtocol_coverage [of "''physiological''" "''high''"] dom
  show ?thesis by blast
qed

section \<open>Properties of validate_og_activity\<close>

lemma array_get_three:
  "array_get [a, b, c] (Finite r) =
     (if r = 0 then Some a else if r = 1 then Some b else if r = 2 then Some c else None)"
proof -
  consider "r = 0" | "r = 1" | "r = 2" | "r \<noteq> 0 \<and> r \<noteq> 1 \<and> r \<noteq> 2" by blast
  then show ?thesis
  proof cases
    case 4
    have "\<not> (r = of_int \<lfloor>r\<rfloor> \<and> 0 \<le> r \<and> r < 3)"
    proof
      assume h: "r = of_int \<lfloor>r\<rfloor> \<and> 0 \<le> r \<and> r < 3"
      then have "0 \<le> \<lfloor>r\<rfloor> \<and> \<lfloor>r\<rfloor> < 3" by linarith
      then have "\<lfloor>r\<rfloor> = 0 \<or> \<lfloor>r\<rfloor> = 1 \<or> \<lfloor>r\<rfloor> = 2" by linarith
      with h have "r = 0 \<or> r = 1 \<or> r = 2" by auto
      with 4 show False by blast
    qed
    with 4 show ?thesis by simp
  qed simp_all
qed

lemma levelData_of_cases:
  "levelData_of targetLevel =
     (if targetLevel = Finite 1 then Some level1
      else if targetLevel = Finite 2 then Some level2
      else if targetLevel = Finite 3 then Some level3
      else None)"
proof (cases targetLevel)
  case (Finite r)
  have vals: "Object_values OG_CURRICULUM = [level1, level2, level3]"
    by (simp add: Object_values_def OG_CURRICULUM_def)
  have "levelData_of (Finite r) =
          (if r - 1 = 0 then Some level1 else if r - 1 = 1 then Some level2
           else if r - 1 = 2 then Some level3 else None)"
    unfolding levelData_of_def vals number_minus.simps by (rule array_get_three)
  also have "\<dots> = (if r = 1 then Some level1 else if r = 2 then Some level2
                    else if r = 3 then Some level3 else None)"
    by auto
  finally show ?thesis using Finite by simp
qed (simp_all add: levelData_of_def)

text \<open>
  C5. For every number outside 1..3, whole or not, finite or not, the handler returns, as a
  normal single-text response, the text that the level is invalid and that it must be
  1-3, with the number printed as the engine prints it. The handler has no failing
  outcome.
\<close>

theorem validateOGActivity_invalid_level:
  "targetLevel \<notin> {Finite 1, Finite 2, Finite 3} \<Longrightarrow>
     validateOGActivity js activity targetLevel =
       TextContent (cross_mark @ '' Invalid OG level: '' @ Number_toString js targetLevel
                    @ ''. Must be 1-3.'')"
  by (simp add: validateOGActivity_def levelData_of_cases invalid_level_text_def)

theorem validateOGActivity_invalid_level_witness:
  "validateOGActivity ascii_builtins (JObj [(''visual'', JStr ''a'')]) (Finite 4) =
     TextContent (cross_mark @ '' Invalid OG level: 4. Must be 1-3.'')
   \<and> validateOGActivity ascii_builtins (JObj [(''visual'', JStr ''a'')]) (Finite (5 / 2)) =
     TextContent (cross_mark @ '' Invalid OG level: 2.5. Must be 1-3.'')
   \<and> validateOGActivity ascii_builtins (JObj [(''visual'', JStr ''a'')]) (Finite (- 12)) =
     TextContent (cross_mark @ '' Invalid OG level: -12. Must be 1-3.'')
   \<and> validateOGActivity ascii_builtins (JObj [(''visual'', JStr ''a'')]) PosInfinity =
     TextContent (cross_mark @ '' Invalid OG level: Infinity. Must be 1-3.'')"
proof -
  have n: "Number_toString ascii_builtins (Finite 4) = ''4''"
    "Number_toString ascii_builtins (Finite (5 / 2)) = ''2.5''"
    "Number_toString ascii_builtins (Finite (- 12)) = ''-12''"
    "Number_toString ascii_builtins PosInfinity = ''Infinity''"
    by code_simp+
  have r: "Finite 4 \<notin> {Finite 1, Finite 2, Finite 3}"
    "Finite (5 / 2) \<notin> {Finite 1, Finite 2, Finite 3}"
    "Finite (- 12) \<notin> {Finite 1, Finite 2, Finite 3}"
    "PosInfinity \<notin> {Finite 1, Finite 2, Finite 3}"
    by simp_all
  show ?thesis
    using validateOGActivity_invalid_level
            [OF r(1), of ascii_builtins "JObj [(''visual'', JStr ''a'')]"]
      validateOGActivity_invalid_level
            [OF r(2), of ascii_builtins "JObj [(''visual'', JStr ''a'')]"]
      validateOGActivity_invalid_level
            [OF r(3), of ascii_builtins "JObj [(''visual'', JStr ''a'')]"]
      validateOGActivity_invalid_level
            [OF r(4), of ascii_builtins "JObj [(''visual'', JStr ''a'')]"]
    unfolding n by simp
qed

lemma og_validate_flags:
  "og_isMultisensory (og_validate js levelData activity targetLevel) \<longleftrightarrow>
     2 \<le> length (filter (str_includes (toLowerCase js (JSON_stringify js activity))) og_modalities)"
  "og_hasPhonemesFocus (og_validate js levelData activity targetLevel) \<longleftrightarrow>
     list_ex (\<lambda>p. str_includes (toLowerCase js (JSON_stringify js activity)) (toLowerCase js p))
       (cl_phonemes levelData)"
  "og_meetsLevel (og_validate js levelData activity targetLevel) \<longleftrightarrow>
     og_isMultisensory (og_validate js levelData activity targetLevel)
     \<and> og_hasPhonemesFocus (og_validate js levelData activity targetLevel)"
  by (simp_all add: og_validate_def Let_def)

lemma modality_count:
  "length (filter (str_includes (toLowerCase js (JSON_stringify js activity))) og_modalities)
     = card (modalities_mentioned js activity)"
proof -
  have d: "distinct og_modalities" by (simp add: og_modalities_def)
  have s: "set og_modalities = modality_names"
    by (simp add: og_modalities_def modality_names_def)
  have "modalities_mentioned js activity
          = {m. str_includes (toLowerCase js (JSON_stringify js activity)) m} \<inter> set og_modalities"
    by (auto simp: modalities_mentioned_def flattened_text_def occurs_in_iff s)
  then show ?thesis
    using distinct_length_filter [OF d] by simp
qed

text \<open>
  C4. For a level in 1..3 and any activity, the handler reports the validation computed
  for the level's data, in which: \<open>isMultisensory\<close> holds exactly when at least two of the
  four modality names occur in the lower-cased serialised activity; \<open>hasPhonemesFocus\<close>
  holds exactly when some phoneme of the level, lower-cased, occurs in that text, which,
  as lower-casing leaves the phonemes unchanged, is when some phoneme of the level occurs
  in it; and \<open>meetsLevel\<close> is the conjunction of the two. This holds for every activity,
  numbers and non-ASCII text included, whatever the engine's functions return.
\<close>

theorem validateOGActivity_criteria:
  "targetLevel \<in> {Finite 1, Finite 2, Finite 3} \<Longrightarrow>
     \<exists>levelData validation.
       levelData_of targetLevel = Some levelData
       \<and> validation = og_validate js levelData activity targetLevel
       \<and> validateOGActivity js activity targetLevel
           = TextContent (og_validation_text js targetLevel levelData validation)
       \<and> (og_isMultisensory validation \<longleftrightarrow> 2 \<le> card (modalities_mentioned js activity))
       \<and> (og_hasPhonemesFocus validation \<longleftrightarrow>
            (\<exists>p \<in> set (cl_phonemes levelData).
               occurs_in (toLowerCase js p) (flattened_text js activity)))
       \<and> (keeps_lower_case js (cl_phonemes levelData) \<longrightarrow>
            (og_hasPhonemesFocus validation \<longleftrightarrow>
               (\<exists>p \<in> set (cl_phonemes levelData). occurs_in p (flattened_text js activity))))
       \<and> (og_meetsLevel validation \<longleftrightarrow>
            og_isMultisensory validation \<and> og_hasPhonemesFocus validation)"
proof -
  assume "targetLevel \<in> {Finite 1, Finite 2, Finite 3}"
  then obtain levelData where lv: "levelData_of targetLevel = Some levelData"
    by (auto simp: levelData_of_cases)
  define validation where "validation = og_validate js levelData activity targetLevel"
  have resp: "validateOGActivity js activity targetLevel
                = TextContent (og_validation_text js targetLevel levelData validation)"
    by (simp add: validateOGActivity_def lv validation_def)
  have multi: "og_isMultisensory validation \<longleftrightarrow> 2 \<le> card (modalities_mentioned js activity)"
    by (simp add: validation_def og_validate_flags(1) modality_count)
  have focus: "og_hasPhonemesFocus validation \<longleftrightarrow>
          (\<exists>p \<in> set (cl_phonemes levelData).
             occurs_in (toLowerCase js p) (flattened_text js activity))"
    by (simp add: validation_def og_validate_flags(2) list_ex_iff occurs_in_iff
        flattened_text_def)
  have focus': "og_hasPhonemesFocus validation \<longleftrightarrow>
          (\<exists>p \<in> set (cl_phonemes levelData). occurs_in p (flattened_text js activity))"
    if "keeps_lower_case js (cl_phonemes levelData)"
  proof -
    from that have "toLowerCase js p = p" if "p \<in> set (cl_phonemes levelData)" for p
      using that by (simp add: keeps_lower_case_def list_all_iff)
    then show ?thesis unfolding focus by auto
  qed
  have meets: "og_meetsLevel validation \<longleftrightarrow>
                 og_isMultisensory validation \<and> og_hasPhonemesFocus validation"
    by (simp add: validation_def og_validate_flags(3))
  from lv resp multi focus focus' meets show ?thesis
    using validation_def by blast
qed

theorem validateOGActivity_criteria_witness:
  "\<not> og_isMultisensory
        (og_validate ascii_builtins level1
           (JObj [(''type'', JStr ''Visual flashcards''), (''minutes'', JNum (Finite (5 / 2)))])
           (Finite 1))
   \<and> card (modalities_mentioned ascii_builtins
        (JObj [(''type'', JStr ''Visual flashcards''), (''minutes'', JNum (Finite (5 / 2)))])) < 2
   \<and> og_hasPhonemesFocus
        (og_validate ascii_builtins level1
           (JObj [(''type'', JStr ''Visual flashcards''), (''minutes'', JNum (Finite (5 / 2)))])
           (Finite 1))
   \<and> (\<exists>p \<in> set (cl_phonemes level1).
         occurs_in p (flattened_text ascii_builtins
           (JObj [(''type'', JStr ''Visual flashcards''), (''minutes'', JNum (Finite (5 / 2)))])))
   \<and> \<not> og_meetsLevel
        (og_validate ascii_builtins level1
           (JObj [(''type'', JStr ''Visual flashcards''), (''minutes'', JNum (Finite (5 / 2)))])
           (Finite 1))"
proof -
  have lv: "levelData_of (Finite 1) = Some level1" by (simp add: levelData_of_cases)
  have ev: "\<not> og_isMultisensory
        (og_validate ascii_builtins level1
           (JObj [(''type'', JStr ''Visual flashcards''), (''minutes'', JNum (Finite (5 / 2)))])
           (Finite 1))"
    "og_hasPhonemesFocus
        (og_validate ascii_builtins level1
           (JObj [(''type'', JStr ''Visual flashcards''), (''minutes'', JNum (Finite (5 / 2)))])
           (Finite 1))"
    by code_simp+
  have keeps: "keeps_lower_case ascii_builtins (cl_phonemes level1)"
    by code_simp
  have dom: "Finite 1 \<in> {Finite 1, Finite 2, Finite 3}" by simp
  from validateOGActivity_criteria
         [OF dom, of ascii_builtins
           "JObj [(''type'', JStr ''Visual flashcards''), (''minutes'', JNum (Finite (5 / 2)))]"]
    lv ev keeps
  show ?thesis by auto
qed

section \<open>The verdict and the issues\<close>

text \<open>
  C6. In each of the three reviewers the verdict flag (\<open>isTraumaInformed\<close>, \<open>isSafe\<close>) is
  true exactly when the issues produced by the same call are empty.
\<close>

theorem verdict_iff_no_issues:
  "(tr_isTraumaInformed (trauma_content_review js content)
      \<longleftrightarrow> tr_issues (trauma_content_review js content) = [])
   \<and> (er_isSafe (engagement_safety_review js mechanic)
      \<longleftrightarrow> er_issues (engagement_safety_review js mechanic) = [])
   \<and> (cr_isSafe (code_safety_review code)
      \<longleftrightarrow> cr_issues (code_safety_review code) = [])"
  by (simp add: trauma_content_review_def engagement_safety_review_def code_safety_review_def
      Let_def)

theorem verdict_iff_no_issues_witness:
  "\<not> tr_isTraumaInformed (trauma_content_review ascii_builtins ''wrong'')
   \<and> er_isSafe
       (engagement_safety_review ascii_builtins ''Explore the story at your own pace'')
   \<and> \<not> cr_isSafe (code_safety_review ''setTimeout(fail, 10)'')"
proof -
  have "tr_issues (trauma_content_review ascii_builtins ''wrong'') \<noteq> []"
    "er_issues
       (engagement_safety_review ascii_builtins ''Explore the story at your own pace'') = []"
    "cr_issues (code_safety_review ''setTimeout(fail, 10)'') \<noteq> []"
    by code_simp+
  with verdict_iff_no_issues [of ascii_builtins "''wrong''"
      "''Explore the story at your own pace''" "''setTimeout(fail, 10)''"]
  show ?thesis by blast
qed

section \<open>Properties of generate_phoneme_activity\<close>

lemma phoneme_components_keys:
  "map fst (phoneme_components js phoneme modalities) =
     filter (\<lambda>m. m \<in> set modalities) [''visual'', ''auditory'', ''kinesthetic'', ''tactile'']
     @ [''assessment'']"
  by (simp add: phoneme_components_def Let_def arr_includes_def)

lemma phoneme_components_assessment:
  "get_property (phoneme_components js phoneme modalities) ''assessment''
     = Some assessment_component"
  by (simp add: phoneme_components_def Let_def get_property_def)

text \<open>
  C7. For every phoneme and every list of modalities taken from the declared ones
  (\<open>visual\<close>, \<open>auditory\<close>, \<open>kinesthetic\<close>, \<open>tactile\<close>), the components of the generated
  activity are keyed by exactly the supplied modalities and \<open>assessment\<close>, each once. The
  assessment holds the three fixed mastery indicators and the fixed practice-structure
  string. A name that was not supplied has no component.
\<close>

theorem generatePhonemeActivity_components:
  "set modalities \<subseteq> set modalities_enum \<Longrightarrow>
     phoneme_activity js phoneme modalities =
       JObj [(''phoneme'', JStr phoneme),
             (''type'', JStr ''multisensory_practice''),
             (''components'', JObj (phoneme_components js phoneme modalities))]
     \<and> set (map fst (phoneme_components js phoneme modalities))
         = set modalities \<union> {''assessment''}
     \<and> distinct (map fst (phoneme_components js phoneme modalities))
     \<and> get_property (phoneme_components js phoneme modalities) ''assessment'' =
         Some (JObj
           [(''masteryIndicators'',
               JArr [JStr ''Automatic recognition (< 2 seconds)'',
                     JStr ''Correct sound production'',
                     JStr ''Proper letter formation'']),
            (''practiceStructure'',
               JStr (''Present '' @ right_arrow @ '' Model '' @ right_arrow @ '' Practice ''
                     @ right_arrow @ '' Assess '' @ right_arrow @ '' Celebrate''))])
     \<and> (\<forall>m. m \<notin> set modalities \<and> m \<noteq> ''assessment'' \<longrightarrow>
            get_property (phoneme_components js phoneme modalities) m = None)"
proof -
  assume sub': "set modalities \<subseteq> set modalities_enum"
  have names: "distinct modalities_enum" "''assessment'' \<notin> set modalities_enum"
    by (simp_all add: modalities_enum_def)
  have k: "map fst (phoneme_components js phoneme modalities)
             = filter (\<lambda>m. m \<in> set modalities) modalities_enum @ [''assessment'']"
    unfolding modalities_enum_def by (rule phoneme_components_keys)
  have keys: "set (map fst (phoneme_components js phoneme modalities))
                = set modalities \<union> {''assessment''}"
    unfolding k using set_filter_member [OF sub'] by simp
  have dist: "distinct (map fst (phoneme_components js phoneme modalities))"
    unfolding k using names(1,2) by simp
  have assess: "get_property (phoneme_components js phoneme modalities) ''assessment'' =
         Some (JObj
           [(''masteryIndicators'',
               JArr [JStr ''Automatic recognition (< 2 seconds)'',
                     JStr ''Correct sound production'',
                     JStr ''Proper letter formation'']),
            (''practiceStructure'',
               JStr (''Present '' @ right_arrow @ '' Model '' @ right_arrow @ '' Practice ''
                     @ right_arrow @ '' Assess '' @ right_arrow @ '' Celebrate''))])"
    unfolding phoneme_components_assessment assessment_component_def masteryIndicators_def
      practiceStructure_def by simp
  have none: "get_property (phoneme_components js phoneme modalities) m = None"
    if "m \<notin> set modalities \<and> m \<noteq> ''assessment''" for m
  proof -
    from that keys have "m \<notin> fst ` set (phoneme_components js phoneme modalities)" by auto
    then show ?thesis by (simp add: get_property_def map_of_eq_None_iff)
  qed
  have act: "phoneme_activity js phoneme modalities =
       JObj [(''phoneme'', JStr phoneme),
             (''type'', JStr ''multisensory_practice''),
             (''components'', JObj (phoneme_components js phoneme modalities))]"
    by (rule phoneme_activity_def)
  from act keys dist assess none show ?thesis by blast
qed

theorem generatePhonemeActivity_components_witness:
  "map fst (phoneme_components ascii_builtins ''a''
              [''visual'', ''auditory'', ''kinesthetic''])
     = [''visual'', ''auditory'', ''kinesthetic'', ''assessment'']
   \<and> set (map fst (phoneme_components ascii_builtins ''a''
                   [''visual'', ''auditory'', ''kinesthetic'']))
       = set [''visual'', ''auditory'', ''kinesthetic''] \<union> {''assessment''}
   \<and> get_property (phoneme_components ascii_builtins ''a''
                      [''visual'', ''auditory'', ''kinesthetic'']) ''tactile''
       = None"
proof -
  have sub: "set [''visual'', ''auditory'', ''kinesthetic''] \<subseteq> set modalities_enum"
    by (simp add: modalities_enum_def)
  have order: "map fst (phoneme_components ascii_builtins ''a''
                         [''visual'', ''auditory'', ''kinesthetic''])
     = [''visual'', ''auditory'', ''kinesthetic'', ''assessment'']"
    by code_simp
  have out: "''tactile'' \<notin> set [''visual'', ''auditory'', ''kinesthetic'']
              \<and> ''tactile'' \<noteq> ''assessment''"
    by simp
  from generatePhonemeActivity_components [OF sub, of ascii_builtins "''a''"] order out
  show ?thesis by blast
qed

section \<open>Properties of the lookups\<close>

lemma themes_resolve: "list_all (\<lambda>theme. selectedTheme_of theme \<noteq> None) theme_enum"
  by code_simp

lemma colours_resolve:
  "map getColorScheme intent_enum =
     [\<lparr> cs_bg = ''bg-green-100'', cs_border = ''border-green-200'', cs_text = ''text-green-900'' \<rparr>,
      \<lparr> cs_bg = ''bg-gray-100'', cs_border = ''border-gray-200'', cs_text = ''text-gray-900'' \<rparr>,
      \<lparr> cs_bg = ''bg-pink-100'', cs_border = ''border-pink-200'', cs_text = ''text-pink-900'' \<rparr>,
      \<lparr> cs_bg = ''bg-blue-100'', cs_border = ''border-blue-200'', cs_text = ''text-blue-900'' \<rparr>]"
  by code_simp

lemma complexities_resolve:
  "map complexity_of stressLevel_enum = [''rich'', ''moderate'', ''simple'']"
  by code_simp

text \<open>
  C8. Each declared intent (\<open>primary\<close>, \<open>secondary\<close>, \<open>comfort\<close>, \<open>celebration\<close>) resolves to its
  colour scheme, each declared theme tag resolves to a theme record, so that the handler
  returns its text, and each declared stress level (\<open>low\<close>, \<open>medium\<close>, \<open>high\<close>) resolves to a
  complexity tag. The complexity is \<open>simple\<close> for \<open>high\<close>, \<open>moderate\<close> for \<open>medium\<close> and
  \<open>rich\<close> for every other value, \<open>low\<close> included.
\<close>

theorem lookups_total:
  "map getColorScheme intent_enum =
     [\<lparr> cs_bg = ''bg-green-100'', cs_border = ''border-green-200'', cs_text = ''text-green-900'' \<rparr>,
      \<lparr> cs_bg = ''bg-gray-100'', cs_border = ''border-gray-200'', cs_text = ''text-gray-900'' \<rparr>,
      \<lparr> cs_bg = ''bg-pink-100'', cs_border = ''border-pink-200'', cs_text = ''text-pink-900'' \<rparr>,
      \<lparr> cs_bg = ''bg-blue-100'', cs_border = ''border-blue-200'', cs_text = ''text-blue-900'' \<rparr>]
   \<and> (theme \<in> set theme_enum \<longrightarrow>
        (\<exists>descriptor. selectedTheme_of theme = Some descriptor)
        \<and> (\<exists>response.
              generateEngagementActivity js phoneme theme inputMethods stressLevel_arg
                = Inr response))
   \<and> map complexity_of stressLevel_enum = [''rich'', ''moderate'', ''simple'']
   \<and> complexity_of ''high'' = ''simple''
   \<and> complexity_of ''medium'' = ''moderate''
   \<and> complexity_of ''low'' = ''rich''
   \<and> (stressLevel \<noteq> ''high'' \<and> stressLevel \<noteq> ''medium'' \<longrightarrow> complexity_of stressLevel = ''rich'')"
proof -
  have theme: "(\<exists>descriptor. selectedTheme_of theme = Some descriptor)
        \<and> (\<exists>response.
              generateEngagementActivity js phoneme theme inputMethods stressLevel_arg
                = Inr response)"
    if "theme \<in> set theme_enum"
  proof -
    from that themes_resolve have "selectedTheme_of theme \<noteq> None"
      unfolding list_all_iff by blast
    then obtain descriptor where d: "selectedTheme_of theme = Some descriptor" by auto
    then have "\<exists>response.
                 generateEngagementActivity js phoneme theme inputMethods stressLevel_arg
                   = Inr response"
      by (simp add: generateEngagementActivity_def Let_def)
    with d show ?thesis by blast
  qed
  have complexity: "complexity_of ''high'' = ''simple''" "complexity_of ''medium'' = ''moderate''"
    "complexity_of ''low'' = ''rich''"
    "stressLevel \<noteq> ''high'' \<and> stressLevel \<noteq> ''medium'' \<longrightarrow> complexity_of stressLevel = ''rich''"
    by (simp_all add: complexity_of_def)
  from colours_resolve theme complexities_resolve complexity show ?thesis by blast
qed

theorem lookups_total_witness:
  "(\<exists>descriptor. selectedTheme_of ''space'' = Some descriptor)
   \<and> (\<exists>response.
         generateEngagementActivity ascii_builtins ''s'' ''space'' [''touch'', ''voice''] None
           = Inr response)
   \<and> complexity_of ''relaxed'' = ''rich''"
proof -
  have "''space'' \<in> set theme_enum" "''relaxed'' \<noteq> ''high'' \<and> ''relaxed'' \<noteq> ''medium''"
    by (simp_all add: theme_enum_def)
  with lookups_total [of "''space''" ascii_builtins "''s''" "[''touch'', ''voice'']" None
      "''relaxed''"]
  show ?thesis by blast
qed

section \<open>Properties of generate_dyslexia_ui\<close>

text \<open>
  C9. For a component type outside the declared ones (\<open>button\<close>, \<open>text\<close>, \<open>input\<close>, \<open>card\<close>)
  the handler returns the normal text response: the selected markup is the empty string,
  and the heading and the feature list are emitted around it.
\<close>

theorem generateDyslexiaUI_unknown_component:
  "componentType \<notin> set componentType_enum \<Longrightarrow>
     select_component componentType (getColorScheme intent) content = ''''
     \<and> generateDyslexiaUI componentType content intent_arg =
         TextContent
           (''Generated dyslexia-friendly '' @ componentType @ '' component:'' @ nl @ nl
            @ '''' @ nl @ nl
            @ ''Features:'' @ nl
            @ ''- OpenDyslexic font with fallbacks'' @ nl
            @ ''- High contrast colors'' @ nl
            @ ''- Large touch targets (min 44px)'' @ nl
            @ ''- Generous spacing and padding'' @ nl
            @ ''- Proper ARIA labels'' @ nl
            @ ''- Focus indicators'')"
  by (simp add: generateDyslexiaUI_def select_component_def dyslexia_ui_text_def Let_def
      componentType_enum_def)

theorem generateDyslexiaUI_unknown_component_witness:
  "generateDyslexiaUI ''slider'' ''Practice Sounds'' (Some ''comfort'') =
     TextContent
       (''Generated dyslexia-friendly slider component:'' @ nl @ nl @ nl @ nl
        @ ''Features:'' @ nl
        @ ''- OpenDyslexic font with fallbacks'' @ nl
        @ ''- High contrast colors'' @ nl
        @ ''- Large touch targets (min 44px)'' @ nl
        @ ''- Generous spacing and padding'' @ nl
        @ ''- Proper ARIA labels'' @ nl
        @ ''- Focus indicators'')"
proof -
  have "''slider'' \<notin> set componentType_enum" by (simp add: componentType_enum_def)
  from generateDyslexiaUI_unknown_component [OF this, of "''comfort''" "''Practice Sounds''"
      "Some ''comfort''"]
  show ?thesis by simp
qed

section \<open>Properties of review_code_safety\<close>

lemma code_safety_issues_empty_iff:
  "cr_issues (code_safety_review code) = [] \<longleftrightarrow>
     \<not> (str_includes code ''fail'' \<or> str_includes code ''error'' \<or> str_includes code ''wrong'')
   \<and> \<not> (str_includes code ''timeout'' \<or> str_includes code ''time limit'')
   \<and> \<not> (str_includes code ''onClick'' \<and> \<not> str_includes code ''aria-label'')"
  by (simp add: code_safety_review_def check_positive_reinforcement_def check_accessibility_def
      check_stress_patterns_def check_failure_states_def Let_def)

text \<open>
  C10. \<open>review_code_safety\<close> searches the raw code string, with no lower-casing: it records
  an issue exactly when the code literally contains \<open>fail\<close>, \<open>error\<close> or \<open>wrong\<close>, or
  \<open>timeout\<close> or \<open>time limit\<close>, or \<open>onClick\<close> without \<open>aria-label\<close>. The code \<open>FAIL\<close>, whose
  lower-casing does record an issue, is reported safe with no issue.
\<close>

theorem reviewCodeSafety_case_sensitive:
  "(cr_issues (code_safety_review code) \<noteq> [] \<longleftrightarrow>
      (str_includes code ''fail'' \<or> str_includes code ''error'' \<or> str_includes code ''wrong'')
    \<or> (str_includes code ''timeout'' \<or> str_includes code ''time limit'')
    \<or> (str_includes code ''onClick'' \<and> \<not> str_includes code ''aria-label''))
   \<and> cr_issues (code_safety_review ''FAIL'') = []
   \<and> cr_isSafe (code_safety_review ''FAIL'')
   \<and> cr_issues (code_safety_review (toLowerCase ascii_builtins ''FAIL'')) \<noteq> []"
proof -
  have gen: "cr_issues (code_safety_review code) \<noteq> [] \<longleftrightarrow>
      (str_includes code ''fail'' \<or> str_includes code ''error'' \<or> str_includes code ''wrong'')
    \<or> (str_includes code ''timeout'' \<or> str_includes code ''time limit'')
    \<or> (str_includes code ''onClick'' \<and> \<not> str_includes code ''aria-label'')"
    using code_safety_issues_empty_iff [of code] by blast
  have up: "cr_issues (code_safety_review ''FAIL'') = []"
    by code_simp
  have safe: "cr_isSafe (code_safety_review ''FAIL'')"
    using up by (simp add: code_safety_review_def Let_def)
  have low: "cr_issues (code_safety_review (toLowerCase ascii_builtins ''FAIL'')) \<noteq> []"
    by code_simp
  from gen up safe low show ?thesis by blast
qed

theorem reviewCodeSafety_case_sensitive_witness:
  "cr_issues (code_safety_review ''onClick FAIL'') \<noteq> []
   \<and> cr_issues (code_safety_review ''aria-label onClick FAIL'') = []"
  using reviewCodeSafety_case_sensitive [of "''onClick FAIL''"]
    reviewCodeSafety_case_sensitive [of "''aria-label onClick FAIL''"]
  by simp

end
